theory Spec2Isabelle
  imports Complex_Main
begin

section \<open>The freehand drawing directive\<close>

text \<open>
  The theory embeds the class \<^verbatim>\<open>FreehandDrawingDirective\<close> (the freehand drawing
  directive, in the source file \<^verbatim>\<open>app.component.ts\<close>): its fields as a record, its
  public methods as functions that take the directive and return it updated.

  JavaScript numbers are modelled as real numbers (exact arithmetic, no rounding, no NaN),
  stroke indices as integers. Objects of the drawing library (PixiJS) live in an explicit
  store, since the directive keeps several references to the same container and graphics
  objects.

  The fields keep their names without the leading underscore; the coordinate logs
  \<^verbatim>\<open>_x\<close> and \<^verbatim>\<open>_y\<close> are \<open>xCoords\<close> and \<open>yCoords\<close>, and the getters \<^verbatim>\<open>x\<close> and
  \<^verbatim>\<open>y\<close> are \<open>get_x\<close> and \<open>get_y\<close>. The field \<open>emitted\<close> lists the notifications
  of the two event emitters in the order they were emitted; \<open>heap\<close> is the store of
  display objects and \<open>next_ref\<close> the next free reference.
\<close>

subsection \<open>Display objects of the drawing library\<close>

text \<open>
  The drawing library is not part of the repository. A \<^verbatim>\<open>PIXI.Container\<close> is modelled by
  the list of its children, a \<^verbatim>\<open>PIXI.Graphics\<close> (which is a container too) by its
  children and by the drawing commands issued on it since it was last cleared.
\<close>

type_synonym ref = nat

datatype gcmd =
    BeginFill real real
  | DrawCircle real real real
  | MoveTo real real
  | LineTo real real
  | QuadraticCurveTo real real real real
  | EndFill

datatype display_object =
    Container "ref list"
  | Graphics "ref list" "gcmd list"

type_synonym store = "ref \<Rightarrow> display_object"

fun children :: "display_object \<Rightarrow> ref list" where
  "children (Container ks) = ks"
| "children (Graphics ks cmds) = ks"

fun set_children :: "ref list \<Rightarrow> display_object \<Rightarrow> display_object" where
  "set_children ks (Container _) = Container ks"
| "set_children ks (Graphics _ cmds) = Graphics ks cmds"

fun is_graphics :: "display_object \<Rightarrow> bool" where
  "is_graphics (Container _) = False"
| "is_graphics (Graphics _ _) = True"

fun geometry :: "display_object \<Rightarrow> gcmd list" where
  "geometry (Container _) = []"
| "geometry (Graphics _ cmds) = cmds"

text \<open>
  \<^verbatim>\<open>addChild\<close> appends a child, \<^verbatim>\<open>removeChild\<close> removes its first occurrence and does
  nothing when it is absent, \<^verbatim>\<open>removeChildAt\<close> removes the child at a position. The
  directive only ever adds objects it has just created, so the library's re-parenting of
  a child that already has a parent is left out. The directive calls \<^verbatim>\<open>removeChildAt\<close>
  at position 0 of a container that it has checked to be non-empty. The argument of
  \<^verbatim>\<open>removeChild\<close> may be \<^verbatim>\<open>undefined\<close> or \<^verbatim>\<open>null\<close> (\<open>None\<close>), which is never a
  child.
\<close>

definition addChild :: "ref \<Rightarrow> ref \<Rightarrow> store \<Rightarrow> store" where
  "addChild c k h = h(c := set_children (children (h c) @ [k]) (h c))"

definition removeChild :: "ref \<Rightarrow> ref option \<Rightarrow> store \<Rightarrow> store" where
  "removeChild c k h =
     (case k of
        None \<Rightarrow> h
      | Some r \<Rightarrow> h(c := set_children (remove1 r (children (h c))) (h c)))"

definition removeChildAt :: "ref \<Rightarrow> nat \<Rightarrow> store \<Rightarrow> store" where
  "removeChildAt c i h =
     h(c := set_children (take i (children (h c)) @ drop (Suc i) (children (h c))) (h c))"

text \<open>
  The directive also uses two members that \<^verbatim>\<open>PIXI.Container\<close> does not have in
  pixi.js 4.8.2, the version the README names: the method \<^verbatim>\<open>contains\<close> and the
  property \<^verbatim>\<open>numChildren\<close> (both are members of the Flash display list, from which
  the code was ported). Calling \<^verbatim>\<open>contains\<close> is a \<^verbatim>\<open>TypeError\<close>: the call has no
  result, whatever its arguments. Reading \<^verbatim>\<open>numChildren\<close> gives \<^verbatim>\<open>undefined\<close>, and
  \<^verbatim>\<open>undefined > 0\<close> is false. In both definitions \<open>None\<close> stands for the missing
  member.
\<close>

definition contains :: "ref \<Rightarrow> ref option \<Rightarrow> store \<Rightarrow> bool option" where
  "contains c k h = None"

definition numChildren :: "ref \<Rightarrow> store \<Rightarrow> nat option" where
  "numChildren c h = None"

definition greaterThanZero :: "nat option \<Rightarrow> bool" where
  "greaterThanZero n = (case n of None \<Rightarrow> False | Some k \<Rightarrow> 0 < k)"

subsection \<open>The directive\<close>

datatype error = TypeError

record directive =
  interactive :: bool
  cache :: bool
  smoothing :: real
  fillColor :: real
  emitted :: "string list"
  handlersAssigned :: bool
  strokeContainer :: ref
  strokes :: "ref list"
  curStrokeContainer :: "ref option"
  stroke :: "ref option"
  tip :: "ref option"
  stage :: ref
  lastRotation :: real
  lineRotation :: real
  L1Sin1 :: real
  L1Cos1 :: real
  controlX1 :: real
  controlY1 :: real
  controlX2 :: real
  controlY2 :: real
  taperThickness :: real
  taper :: real
  mouseMoved :: bool
  lastSmoothedMouseX :: real
  lastSmoothedMouseY :: real
  smoothedMouseX :: real
  smoothedMouseY :: real
  lastMouseX :: real
  lastMouseY :: real
  startX :: real
  startY :: real
  mouseDeltaX :: real
  mouseDeltaY :: real
  lastMouseChangeVectorX :: real
  lastMouseChangeVectorY :: real
  mousePressed :: bool
  lastThickness :: real
  lineThickness :: real
  tipTaperFactor :: real
  minThickness :: real
  thicknessFactor :: real
  thicknessSmoothingFactor :: real
  xCoords :: "real list"
  yCoords :: "real list"
  heap :: store
  next_ref :: ref

text \<open>
  A method either returns or throws; a thrown error leaves the directive as it was at
  the throw, so both outcomes carry a directive.
\<close>

type_synonym outcome = "error \<times> directive + directive"

definition andThen :: "outcome \<Rightarrow> (directive \<Rightarrow> outcome) \<Rightarrow> outcome" where
  "andThen m f = (case m of Inl e \<Rightarrow> Inl e | Inr s \<Rightarrow> f s)"

fun state_of :: "outcome \<Rightarrow> directive" where
  "state_of (Inl (e, s)) = s"
| "state_of (Inr s) = s"

fun raised :: "outcome \<Rightarrow> error option" where
  "raised (Inl (e, s)) = Some e"
| "raised (Inr s) = None"

text \<open>
  Calling a drawing method through a reference: \<^verbatim>\<open>undefined\<close> and \<^verbatim>\<open>null\<close> are
  \<open>None\<close>, and a method of \<^verbatim>\<open>PIXI.Graphics\<close> called on them, or on a plain container,
  is a \<^verbatim>\<open>TypeError\<close>. \<open>draw\<close> issues a run of path and fill commands on one graphics
  object; \<open>clearGraphics\<close> is \<^verbatim>\<open>Graphics.clear()\<close>.
\<close>

definition draw :: "ref option \<Rightarrow> gcmd list \<Rightarrow> directive \<Rightarrow> outcome" where
  "draw g cmds s =
     (case g of
        None \<Rightarrow> Inl (TypeError, s)
      | Some r \<Rightarrow>
          (case heap s r of
             Container _ \<Rightarrow> Inl (TypeError, s)
           | Graphics ks old \<Rightarrow> Inr (s\<lparr>heap := (heap s)(r := Graphics ks (old @ cmds))\<rparr>)))"

definition clearGraphics :: "ref option \<Rightarrow> directive \<Rightarrow> outcome" where
  "clearGraphics g s =
     (case g of
        None \<Rightarrow> Inl (TypeError, s)
      | Some r \<Rightarrow>
          (case heap s r of
             Container _ \<Rightarrow> Inl (TypeError, s)
           | Graphics ks old \<Rightarrow> Inr (s\<lparr>heap := (heap s)(r := Graphics ks [])\<rparr>)))"

text \<open>\<^verbatim>\<open>new PIXI.Graphics()\<close> and \<^verbatim>\<open>new PIXI.Container()\<close>: the next free reference.\<close>

definition new_object :: "display_object \<Rightarrow> directive \<Rightarrow> ref \<times> directive" where
  "new_object obj s =
     (next_ref s, s\<lparr>heap := (heap s)(next_ref s := obj), next_ref := Suc (next_ref s)\<rparr>)"

text \<open>Reading \<^verbatim>\<open>array[index]\<close>: \<^verbatim>\<open>undefined\<close> outside the array.\<close>

definition at_index :: "'a list \<Rightarrow> int \<Rightarrow> 'a option" where
  "at_index xs i = (if 0 \<le> i \<and> i < int (length xs) then Some (xs ! nat i) else None)"

text \<open>
  \<^verbatim>\<open>Array.prototype.splice(start, deleteCount)\<close> without inserted items: a negative
  start counts from the end, and both numbers are clamped to the array.
\<close>

definition splice :: "int \<Rightarrow> int \<Rightarrow> 'a list \<Rightarrow> 'a list" where
  "splice start deleteCount xs =
     (let len = int (length xs);
          from = (if start < 0 then max (len + start) 0 else min start len);
          cnt = min (max deleteCount 0) (len - from)
      in take (nat from) xs @ drop (nat (from + cnt)) xs)"

text \<open>\<^verbatim>\<open>Math.atan2(y, x)\<close> on real numbers.\<close>

definition atan2 :: "real \<Rightarrow> real \<Rightarrow> real" where
  "atan2 y x =
     (if 0 < x then arctan (y / x)
      else if x < 0 then (if 0 \<le> y then arctan (y / x) + pi else arctan (y / x) - pi)
      else if 0 < y then pi / 2
      else if y < 0 then - (pi / 2)
      else 0)"

subsection \<open>Getters\<close>

definition numStrokes :: "directive \<Rightarrow> nat" where
  "numStrokes s = length (strokes s)"

definition get_x :: "directive \<Rightarrow> real list" where
  "get_x s = xCoords s"

definition get_y :: "directive \<Rightarrow> real list" where
  "get_y s = yCoords s"

subsection \<open>The tip\<close>

text \<open>
  \<^verbatim>\<open>__drawTip(isFinal, x, y)\<close>: a filled circle at the point, then the tapered
  quadrilateral from the end of the ribbon to the point; into the stroke when final,
  into the cleared tip layer otherwise.
\<close>

definition drawTip :: "bool \<Rightarrow> real \<Rightarrow> real \<Rightarrow> directive \<Rightarrow> outcome" where
  "drawTip isFinal x y s0 =
     (let s1 = s0\<lparr>taperThickness := tipTaperFactor s0 * lineThickness s0\<rparr>;
          g = (if isFinal then stroke s1 else tip s1)
      in andThen (if isFinal then Inr s1 else clearGraphics (tip s1) s1) (\<lambda>s2.
         andThen (draw g [BeginFill (fillColor s2) 1,
                          DrawCircle x y (taperThickness s2),
                          EndFill] s2) (\<lambda>s3.
         let s4 = s3\<lparr>taper := tipTaperFactor s3\<rparr>
         in draw g [BeginFill (fillColor s4) 1,
                    MoveTo (smoothedMouseX s4 + L1Cos1 s4) (smoothedMouseY s4 + L1Sin1 s4),
                    LineTo (x + taper s4 * L1Cos1 s4) (y + taper s4 * L1Sin1 s4),
                    LineTo (x - taper s4 * L1Cos1 s4) (y - taper s4 * L1Sin1 s4),
                    LineTo (smoothedMouseX s4 - L1Cos1 s4) (smoothedMouseY s4 - L1Sin1 s4),
                    LineTo (smoothedMouseX s4 + L1Cos1 s4) (smoothedMouseY s4 + L1Sin1 s4),
                    EndFill] s4)))"

subsection \<open>clear\<close>

text \<open>
  The inner loop of \<^verbatim>\<open>clear()\<close>: while the container has children, clear the first
  one and remove it. Each round removes one child, so the loop ends.
\<close>

function clearChildren :: "ref \<Rightarrow> directive \<Rightarrow> outcome" where
  "clearChildren c s =
     (case children (heap s c) of
        [] \<Rightarrow> Inr s
      | k # ks \<Rightarrow>
          (case clearGraphics (Some k) s of
             Inl e \<Rightarrow> Inl e
           | Inr s' \<Rightarrow> clearChildren c (s'\<lparr>heap := removeChildAt c 0 (heap s')\<rparr>)))"
  by pat_completeness auto
termination
proof (relation "measure (\<lambda>(c, s). length (children (heap s c)))", goal_cases)
  case 1
  show ?case by simp
next
  case (2 c s k ks s')
  from 2(2) have "children (heap s' c) = children (heap s c)"
    by (auto simp: clearGraphics_def split: display_object.splits if_splits)
  with 2(1) show ?case
    by (cases "heap s' c") (simp_all add: removeChildAt_def)
qed

text \<open>The outer loop of \<^verbatim>\<open>clear()\<close>, over the strokes in order.\<close>

fun clearStrokes :: "ref list \<Rightarrow> directive \<Rightarrow> outcome" where
  "clearStrokes [] s = Inr s"
| "clearStrokes (c # cs) s = andThen (clearChildren c s) (clearStrokes cs)"

text \<open>The last loop of \<^verbatim>\<open>clear()\<close>: remove the first child while there is one.\<close>

function removeAllChildren :: "ref \<Rightarrow> store \<Rightarrow> store" where
  "removeAllChildren c h =
     (if length (children (h c)) > 0 then removeAllChildren c (removeChildAt c 0 h) else h)"
  by pat_completeness auto
termination
proof (relation "measure (\<lambda>(c, h). length (children (h c)))", goal_cases)
  case 1
  show ?case by simp
next
  case (2 c h)
  then show ?case
    by (cases "h c") (simp_all add: removeChildAt_def)
qed

text \<open>
  \<^verbatim>\<open>clear()\<close>. The stroke container exists from the constructor on, so the test
  \<^verbatim>\<open>this._strokeContainer !== undefined\<close> inside the loop is always true.
\<close>

definition clear :: "directive \<Rightarrow> outcome" where
  "clear s0 =
     (let s1 = s0\<lparr>lastRotation := 0, lineRotation := 0, L1Sin1 := 0, L1Cos1 := 0,
                   controlX1 := 0, controlY1 := 0, controlX2 := 0, controlY2 := 0,
                   taperThickness := 0, taper := 0,
                   mouseMoved := False,
                   lastSmoothedMouseX := 0, lastSmoothedMouseY := 0,
                   smoothedMouseX := 0, smoothedMouseY := 0,
                   lastMouseX := 0, lastMouseY := 0,
                   startX := 0, startY := 0,
                   mouseDeltaX := 0, mouseDeltaY := 0,
                   lastMouseChangeVectorX := 0, lastMouseChangeVectorY := 0,
                   handlersAssigned := False, mousePressed := False\<rparr>
      in andThen (clearStrokes (strokes s1) s1) (\<lambda>s2.
           Inr (s2\<lparr>heap := removeAllChildren (strokeContainer s2) (heap s2),
                    strokes := []\<rparr>)))"

subsection \<open>The constructor\<close>

text \<open>
  The constructor sets the defaults, creates the stage and the stroke container
  (\<^verbatim>\<open>__pixiSetup\<close>) and calls \<^verbatim>\<open>clear()\<close>. It assigns neither
  \<^verbatim>\<open>_lastThickness\<close> nor \<^verbatim>\<open>_lineThickness\<close>, and \<^verbatim>\<open>clear()\<close> does not either:
  what they hold on a new directive is a parameter here. The references to the current
  stroke, its container and its tip are \<^verbatim>\<open>undefined\<close>. The DOM container, its
  rectangle, the mouse handlers and the size of the view are left out.
\<close>

definition new_directive :: "real \<Rightarrow> real \<Rightarrow> directive" where
  "new_directive lastThickness0 lineThickness0 =
     state_of (clear
       \<lparr>interactive = True, cache = True, smoothing = 0.3, fillColor = 255,
        emitted = [], handlersAssigned = False,
        strokeContainer = 1, strokes = [],
        curStrokeContainer = None, stroke = None, tip = None,
        stage = 0,
        lastRotation = 0, lineRotation = 0, L1Sin1 = 0, L1Cos1 = 0,
        controlX1 = 0, controlY1 = 0, controlX2 = 0, controlY2 = 0,
        taperThickness = 0, taper = 0,
        mouseMoved = False,
        lastSmoothedMouseX = 0, lastSmoothedMouseY = 0,
        smoothedMouseX = 0, smoothedMouseY = 0,
        lastMouseX = 0, lastMouseY = 0, startX = 0, startY = 0,
        mouseDeltaX = 0, mouseDeltaY = 0,
        lastMouseChangeVectorX = 0, lastMouseChangeVectorY = 0,
        mousePressed = False,
        lastThickness = lastThickness0, lineThickness = lineThickness0,
        tipTaperFactor = 0.8, minThickness = 1, thicknessFactor = 0.3,
        thicknessSmoothingFactor = 0.3,
        xCoords = [], yCoords = [],
        heap = addChild 0 1 (\<lambda>r. Container []),
        next_ref = 2\<rparr>)"

subsection \<open>beginStrokeAt\<close>

definition beginStrokeAt :: "real \<Rightarrow> real \<Rightarrow> int \<Rightarrow> directive \<Rightarrow> outcome" where
  "beginStrokeAt x y index s0 =
     (let s1 = s0\<lparr>xCoords := [], yCoords := []\<rparr>;
          s2 = (if cache s1
                then s1\<lparr>xCoords := xCoords s1 @ [x], yCoords := yCoords s1 @ [y]\<rparr>
                else s1);
          s3 = s2\<lparr>startX := x, lastMouseX := x, smoothedMouseX := x, lastSmoothedMouseX := x,
                   startY := y, lastMouseY := y, smoothedMouseY := y, lastSmoothedMouseY := y,
                   lastThickness := 0, lastRotation := pi / 2,
                   lastMouseChangeVectorX := 0, lastMouseChangeVectorY := 0,
                   mouseMoved := False\<rparr>;
          (g, s4) = new_object (Graphics [] []) s3;
          s5 = s4\<lparr>stroke := Some g\<rparr>;
          (t, s6) = new_object (Graphics [] []) s5;
          s7 = s6\<lparr>tip := Some t\<rparr>
      in andThen
           (if index = - 1 then
              (let (c, s8) = new_object (Container []) s7;
                   s9 = s8\<lparr>curStrokeContainer := Some c\<rparr>;
                   s10 = s9\<lparr>heap := addChild c t (addChild c g (heap s9))\<rparr>;
                   s11 = s10\<lparr>strokes := strokes s10 @ [c]\<rparr>
               in Inr (s11\<lparr>heap := addChild (strokeContainer s11) c (heap s11)\<rparr>))
            else
              (let s8 = s7\<lparr>curStrokeContainer := at_index (strokes s7) index\<rparr>
               in case curStrokeContainer s8 of
                    None \<Rightarrow> Inl (TypeError, s8)
                  | Some c \<Rightarrow>
                      (let s9 = (if greaterThanZero (numChildren c (heap s8))
                                 then s8\<lparr>heap := removeChildAt c 0 (heap s8)\<rparr>
                                 else s8)
                       in Inr (s9\<lparr>heap := addChild c t (addChild c g (heap s9))\<rparr>))))
           (\<lambda>s. Inr (s\<lparr>mousePressed := True, emitted := emitted s @ [''beginStroke'']\<rparr>)))"

subsection \<open>endStrokeAt\<close>

definition endStrokeAt :: "real \<Rightarrow> real \<Rightarrow> directive \<Rightarrow> outcome" where
  "endStrokeAt x y s0 =
     (let s1 = (if cache s0
                then s0\<lparr>xCoords := xCoords s0 @ [x], yCoords := yCoords s0 @ [y]\<rparr>
                else s0)
      in andThen (drawTip True x y s1) (\<lambda>s2.
         andThen (clearGraphics (tip s2) s2) (\<lambda>s3.
           case curStrokeContainer s3 of
             None \<Rightarrow> Inl (TypeError, s3)
           | Some c \<Rightarrow>
               Inr (s3\<lparr>heap := removeChild c (tip s3) (heap s3),
                        tip := None,
                        mousePressed := False,
                        emitted := emitted s3 @ [''endStroke'']\<rparr>))))"

subsection \<open>eraseStroke\<close>

text \<open>
  The method returns a truth value or throws. Past the guard it calls \<^verbatim>\<open>contains\<close>
  on the stroke container, which throws before anything is removed.
\<close>

definition eraseStroke :: "int \<Rightarrow> directive \<Rightarrow> error \<times> directive + bool \<times> directive" where
  "eraseStroke index s0 =
     (if index < int (length (strokes s0)) then
        (let st = at_index (strokes s0) index
         in case contains (strokeContainer s0) st (heap s0) of
              None \<Rightarrow> Inl (TypeError, s0)
            | Some b \<Rightarrow>
                (let s1 = (if b
                           then s0\<lparr>heap := removeChild (strokeContainer s0) st (heap s0)\<rparr>
                           else s0)
                 in Inr (True, s1\<lparr>strokes := splice index 1 (strokes s1)\<rparr>)))
      else Inr (False, s0))"

fun erased :: "error \<times> directive + bool \<times> directive \<Rightarrow> directive" where
  "erased (Inl (e, s)) = s"
| "erased (Inr (b, s)) = s"

subsection \<open>updateStroke\<close>

text \<open>
  The method is embedded in four parts, in the order of its body: logging the point and
  recording the mouse delta, the cusp test on that delta, the body of the cusp branch,
  and everything from the smoothing on.
\<close>

definition recordSample :: "real \<Rightarrow> real \<Rightarrow> directive \<Rightarrow> directive" where
  "recordSample x y s0 =
     (let s1 = (if cache s0
                then s0\<lparr>xCoords := xCoords s0 @ [x], yCoords := yCoords s0 @ [y]\<rparr>
                else s0);
          s2 = s1\<lparr>mouseDeltaX := x - lastMouseX s1, mouseDeltaY := y - lastMouseY s1\<rparr>
      in s2\<lparr>mouseMoved := True\<rparr>)"

definition cuspDetected :: "directive \<Rightarrow> bool" where
  "cuspDetected s =
     (mouseDeltaX s * lastMouseChangeVectorX s + mouseDeltaY s * lastMouseChangeVectorY s < 0)"

definition cuspBranch :: "directive \<Rightarrow> outcome" where
  "cuspBranch s0 =
     andThen (drawTip True (lastMouseX s0) (lastMouseY s0) s0) (\<lambda>s1.
       Inr (s1\<lparr>lastSmoothedMouseX := lastMouseX s1, smoothedMouseX := lastMouseX s1,
                lastSmoothedMouseY := lastMouseY s1, smoothedMouseY := lastMouseY s1,
                lastRotation := lastRotation s1 + pi,
                lastThickness := tipTaperFactor s1 * lastThickness s1\<rparr>))"

definition extendStroke :: "real \<Rightarrow> real \<Rightarrow> directive \<Rightarrow> outcome" where
  "extendStroke x y s0 =
     (let s1 = s0\<lparr>smoothedMouseX := smoothedMouseX s0 + smoothing s0 * (x - smoothedMouseX s0)\<rparr>;
          s2 = s1\<lparr>smoothedMouseY := smoothedMouseY s1 + smoothing s1 * (y - smoothedMouseY s1)\<rparr>;
          dx = smoothedMouseX s2 - lastSmoothedMouseX s2;
          dy = smoothedMouseY s2 - lastSmoothedMouseY s2;
          dist = sqrt (dx * dx + dy * dy);
          targetLineThickness = minThickness s2 + thicknessFactor s2 * dist;
          s3 = s2\<lparr>lineRotation := (if dist \<noteq> 0 then pi / 2 + atan2 dy dx else 0)\<rparr>;
          s4 = s3\<lparr>lineThickness := lastThickness s3
                     + thicknessSmoothingFactor s3 * (targetLineThickness - lastThickness s3)\<rparr>;
          sin0 = sin (lastRotation s4);
          cos0 = cos (lastRotation s4);
          sin1 = sin (lineRotation s4);
          cos1 = cos (lineRotation s4);
          L0Sin0 = lastThickness s4 * sin0;
          L0Cos0 = lastThickness s4 * cos0;
          s5 = s4\<lparr>L1Sin1 := lineThickness s4 * sin1, L1Cos1 := lineThickness s4 * cos1\<rparr>;
          controlVecX = 0.33 * dist * sin0;
          controlVecY = - 0.33 * dist * cos0;
          s6 = s5\<lparr>controlX1 := lastSmoothedMouseX s5 + L0Cos0 + controlVecX,
                   controlY1 := lastSmoothedMouseY s5 + L0Sin0 + controlVecY,
                   controlX2 := lastSmoothedMouseX s5 - L0Cos0 + controlVecX,
                   controlY2 := lastSmoothedMouseY s5 - L0Sin0 + controlVecY\<rparr>
      in andThen
           (draw (stroke s6)
              [BeginFill (fillColor s6) 1,
               MoveTo (lastSmoothedMouseX s6 + L0Cos0) (lastSmoothedMouseY s6 + L0Sin0),
               QuadraticCurveTo (controlX1 s6) (controlY1 s6)
                 (smoothedMouseX s6 + L1Cos1 s6) (smoothedMouseY s6 + L1Sin1 s6),
               LineTo (smoothedMouseX s6 - L1Cos1 s6) (smoothedMouseY s6 - L1Sin1 s6),
               QuadraticCurveTo (controlX2 s6) (controlY2 s6)
                 (lastSmoothedMouseX s6 - L0Cos0) (lastSmoothedMouseY s6 - L0Sin0),
               LineTo (lastSmoothedMouseX s6 + L0Cos0) (lastSmoothedMouseY s6 + L0Sin0),
               EndFill] s6) (\<lambda>s7.
         andThen (drawTip False x y s7) (\<lambda>s8.
           Inr (s8\<lparr>lastSmoothedMouseX := smoothedMouseX s8,
                    lastSmoothedMouseY := smoothedMouseY s8,
                    lastRotation := lineRotation s8,
                    lastThickness := lineThickness s8,
                    lastMouseChangeVectorX := mouseDeltaX s8,
                    lastMouseChangeVectorY := mouseDeltaY s8,
                    lastMouseX := x,
                    lastMouseY := y\<rparr>))))"

definition updateStroke :: "real \<Rightarrow> real \<Rightarrow> directive \<Rightarrow> outcome" where
  "updateStroke x y s0 =
     (if \<not> mousePressed s0 then Inr s0
      else
        (let s1 = recordSample x y s0
         in andThen (if cuspDetected s1 then cuspBranch s1 else Inr s1) (extendStroke x y)))"

subsection \<open>Sequences of calls\<close>

text \<open>
  A caller's sequence of calls on the public methods. The directive after a call is the
  one the call leaves, whether it returned or threw.
\<close>

datatype call =
    Clear
  | BeginStrokeAt real real int
  | EndStrokeAt real real
  | EraseStroke int
  | UpdateStroke real real

fun perform :: "call \<Rightarrow> directive \<Rightarrow> directive" where
  "perform Clear s = state_of (clear s)"
| "perform (BeginStrokeAt x y index) s = state_of (beginStrokeAt x y index s)"
| "perform (EndStrokeAt x y) s = state_of (endStrokeAt x y s)"
| "perform (EraseStroke index) s = erased (eraseStroke index s)"
| "perform (UpdateStroke x y) s = state_of (updateStroke x y s)"

definition run :: "call list \<Rightarrow> directive \<Rightarrow> directive" where
  "run calls s = fold perform calls s"

subsection \<open>Strokes in progress and their thickness\<close>

text \<open>
  A stroke is in progress when the mouse is pressed, the references to the stroke and to
  its tip hold graphics objects and the current stroke container is set, as they are
  from \<^verbatim>\<open>beginStrokeAt\<close> to \<^verbatim>\<open>endStrokeAt\<close>.
\<close>

definition graphics_at :: "ref option \<Rightarrow> store \<Rightarrow> bool" where
  "graphics_at g h = (case g of None \<Rightarrow> False | Some r \<Rightarrow> is_graphics (h r))"

definition strokeInProgress :: "directive \<Rightarrow> bool" where
  "strokeInProgress s =
     (mousePressed s \<and> graphics_at (stroke s) (heap s) \<and> graphics_at (tip s) (heap s)
      \<and> curStrokeContainer s \<noteq> None)"

text \<open>Whether a call returns, and whether every call of a sequence does.\<close>

fun returns :: "call \<Rightarrow> directive \<Rightarrow> bool" where
  "returns Clear s = (raised (clear s) = None)"
| "returns (BeginStrokeAt x y index) s = (raised (beginStrokeAt x y index s) = None)"
| "returns (EndStrokeAt x y) s = (raised (endStrokeAt x y s) = None)"
| "returns (EraseStroke index) s = (case eraseStroke index s of Inl _ \<Rightarrow> False | Inr _ \<Rightarrow> True)"
| "returns (UpdateStroke x y) s = (raised (updateStroke x y s) = None)"

fun allReturn :: "call list \<Rightarrow> directive \<Rightarrow> bool" where
  "allReturn [] s = True"
| "allReturn (c # cs) s = (returns c s \<and> allReturn cs (perform c s))"

text \<open>
  The directive on which the smoothing of \<^verbatim>\<open>updateStroke(x, y)\<close> runs: after the point
  is logged, the delta recorded and, at a cusp, the cusp branch taken.
\<close>

definition beforeSmoothing :: "real \<Rightarrow> real \<Rightarrow> directive \<Rightarrow> outcome" where
  "beforeSmoothing x y s0 =
     (let s1 = recordSample x y s0
      in if cuspDetected s1 then cuspBranch s1 else Inr s1)"

text \<open>
  The length \<^verbatim>\<open>dist\<close> that the smoothing computes from a directive: the distance from
  the last smoothed position to the new one.
\<close>

definition smoothedDist :: "real \<Rightarrow> real \<Rightarrow> directive \<Rightarrow> real" where
  "smoothedDist x y s =
     (let dx = smoothedMouseX s + smoothing s * (x - smoothedMouseX s) - lastSmoothedMouseX s;
          dy = smoothedMouseY s + smoothing s * (y - smoothedMouseY s) - lastSmoothedMouseY s
      in sqrt (dx * dx + dy * dy))"

text \<open>
  Along a sequence of \<^verbatim>\<open>updateStroke\<close> calls: the line thickness after each call, the
  distance of each sample from the one before, whether each call found a cusp, and the
  length \<^verbatim>\<open>dist\<close> each call computed.
\<close>

fun thicknesses :: "(real \<times> real) list \<Rightarrow> directive \<Rightarrow> real list" where
  "thicknesses [] s = []"
| "thicknesses (p # ps) s =
     (let s' = state_of (updateStroke (fst p) (snd p) s)
      in lineThickness s' # thicknesses ps s')"

fun sampleDists :: "(real \<times> real) list \<Rightarrow> directive \<Rightarrow> real list" where
  "sampleDists [] s = []"
| "sampleDists (p # ps) s =
     sqrt ((fst p - lastMouseX s) * (fst p - lastMouseX s)
           + (snd p - lastMouseY s) * (snd p - lastMouseY s))
     # sampleDists ps (state_of (updateStroke (fst p) (snd p) s))"

fun cusps :: "(real \<times> real) list \<Rightarrow> directive \<Rightarrow> bool list" where
  "cusps [] s = []"
| "cusps (p # ps) s =
     cuspDetected (recordSample (fst p) (snd p) s)
     # cusps ps (state_of (updateStroke (fst p) (snd p) s))"

fun smoothedDists :: "(real \<times> real) list \<Rightarrow> directive \<Rightarrow> real list" where
  "smoothedDists [] s = []"
| "smoothedDists (p # ps) s =
     smoothedDist (fst p) (snd p) (state_of (beforeSmoothing (fst p) (snd p) s))
     # smoothedDists ps (state_of (updateStroke (fst p) (snd p) s))"

subsection \<open>Well-formed directives\<close>

text \<open>
  What the methods keep true of the references: the stroke container and the containers
  of the strokes were created before the next free reference; the stroke container is
  none of the strokes; and the children of a stroke's container are graphics objects
  created before the next free reference.
\<close>

definition wellFormed :: "directive \<Rightarrow> bool" where
  "wellFormed s =
     (strokeContainer s < next_ref s
      \<and> list_all (\<lambda>c. c < next_ref s \<and> c \<noteq> strokeContainer s
            \<and> list_all (\<lambda>k. k < next_ref s \<and> is_graphics (heap s k)) (children (heap s c)))
          (strokes s))"

text \<open>
  The scene without its geometry: the strokes, the stroke container, the next free
  reference, and of every display object its kind and its children.
\<close>

definition shape :: "directive \<Rightarrow> ref list \<times> ref \<times> ref \<times> (ref \<Rightarrow> bool \<times> ref list)" where
  "shape s =
     (strokes s, strokeContainer s, next_ref s,
      \<lambda>r. (is_graphics (heap s r), children (heap s r)))"

section \<open>Evaluation rules\<close>

text \<open>
  Sequencing is evaluated left to right: the continuation of \<open>andThen\<close> and the body of
  a \<open>let\<close> are only looked at once the value they wait for is known.
\<close>

lemma andThen_Inr: "andThen (Inr s) f = f s"
  by (simp add: andThen_def)

lemma andThen_Inl: "andThen (Inl e) f = Inl e"
  by (simp add: andThen_def)

lemma andThen_weak_cong: "m = m' \<Longrightarrow> andThen m f = andThen m' f"
  by simp

lemmas prims = andThen_Inr andThen_Inl draw_def clearGraphics_def new_object_def at_index_def
  splice_def addChild_def removeChild_def removeChildAt_def contains_def numChildren_def
  greaterThanZero_def

lemmas ops = run_def new_directive_def clear_def beginStrokeAt_def endStrokeAt_def drawTip_def
  Let_def updateStroke_def recordSample_def extendStroke_def cuspDetected_def cuspBranch_def
  eraseStroke_def numStrokes_def get_x_def get_y_def

section \<open>Calls without a stroke in progress\<close>

lemma updateStroke_not_pressed: "\<not> mousePressed s \<Longrightarrow> updateStroke x y s = Inr s"
  by (simp add: updateStroke_def)

text \<open>
  C1. The claim: with no stroke in progress, \<^verbatim>\<open>updateStroke\<close> and \<^verbatim>\<open>endStrokeAt\<close> both
  leave the directive as it is and raise nothing. \<^verbatim>\<open>updateStroke\<close> does
  (\<open>updateStroke_not_pressed\<close>); \<^verbatim>\<open>endStrokeAt\<close> has no such test. On a directive
  that has just been constructed, where the mouse is not pressed and the log is empty,
  \<^verbatim>\<open>endStrokeAt(1, 2)\<close> appends the point to the log and then throws a
  \<^verbatim>\<open>TypeError\<close>, since there is no stroke to draw the tip into. After a stroke
  that was begun and ended, a second \<^verbatim>\<open>endStrokeAt(6, 6)\<close> draws one more final tip
  into the finished stroke (ten more commands) and then throws a \<^verbatim>\<open>TypeError\<close>,
  since the tip is \<^verbatim>\<open>null\<close>.
\<close>

theorem endStrokeAt_without_stroke:
  "\<not> mousePressed (new_directive a b)
   \<and> get_x (new_directive a b) = []
   \<and> get_y (new_directive a b) = []
   \<and> raised (endStrokeAt 1 2 (new_directive a b)) = Some TypeError
   \<and> get_x (state_of (endStrokeAt 1 2 (new_directive a b))) = [1]
   \<and> get_y (state_of (endStrokeAt 1 2 (new_directive a b))) = [2]
   \<and> \<not> mousePressed (run [BeginStrokeAt 0 0 (- 1), EndStrokeAt 5 5] (new_directive a b))
   \<and> stroke (run [BeginStrokeAt 0 0 (- 1), EndStrokeAt 5 5] (new_directive a b)) = Some 2
   \<and> length (geometry (heap (run [BeginStrokeAt 0 0 (- 1), EndStrokeAt 5 5] (new_directive a b)) 2)) = 10
   \<and> raised (endStrokeAt 6 6 (run [BeginStrokeAt 0 0 (- 1), EndStrokeAt 5 5] (new_directive a b))) = Some TypeError
   \<and> length (geometry (heap (state_of (endStrokeAt 6 6 (run [BeginStrokeAt 0 0 (- 1), EndStrokeAt 5 5] (new_directive a b)))) 2)) = 20"
  by (simp add: ops prims cong: andThen_weak_cong let_weak_cong)

section \<open>Erasing a stroke\<close>

lemma eraseStroke_guarded:
  "i < int (numStrokes s) \<Longrightarrow> eraseStroke i s = Inl (TypeError, s)"
  by (simp add: eraseStroke_def numStrokes_def contains_def Let_def)

lemma eraseStroke_out_of_range:
  "int (numStrokes s) \<le> i \<Longrightarrow> eraseStroke i s = Inr (False, s)"
  by (simp add: eraseStroke_def numStrokes_def)

lemma two_strokes:
  "strokes (run [BeginStrokeAt 0 0 (- 1), BeginStrokeAt 5 5 (- 1)] (new_directive 0 0)) = [4, 7]"
  by (simp add: ops prims cong: andThen_weak_cong let_weak_cong)

text \<open>
  C2. The claim: for \<open>0 \<le> i < numStrokes\<close>, \<^verbatim>\<open>eraseStroke(i)\<close> returns true and the
  number of strokes goes down by one; for \<open>i \<ge> numStrokes\<close> it returns false and the
  directive is unchanged. The second half holds (\<open>eraseStroke_out_of_range\<close>). The first
  does not: with two strokes, \<^verbatim>\<open>eraseStroke(0)\<close> and \<^verbatim>\<open>eraseStroke(1)\<close> pass the guard
  and throw a \<^verbatim>\<open>TypeError\<close> at the call of \<^verbatim>\<open>contains\<close>, before \<^verbatim>\<open>removeChild\<close> and
  \<^verbatim>\<open>splice\<close>: nothing is returned and both strokes are still there.
\<close>

theorem eraseStroke_in_range_throws:
  "numStrokes (run [BeginStrokeAt 0 0 (- 1), BeginStrokeAt 5 5 (- 1)] (new_directive 0 0)) = 2
   \<and> eraseStroke 0 (run [BeginStrokeAt 0 0 (- 1), BeginStrokeAt 5 5 (- 1)] (new_directive 0 0))
       = Inl (TypeError, (run [BeginStrokeAt 0 0 (- 1), BeginStrokeAt 5 5 (- 1)] (new_directive 0 0)))
   \<and> eraseStroke 1 (run [BeginStrokeAt 0 0 (- 1), BeginStrokeAt 5 5 (- 1)] (new_directive 0 0))
       = Inl (TypeError, (run [BeginStrokeAt 0 0 (- 1), BeginStrokeAt 5 5 (- 1)] (new_directive 0 0)))
   \<and> numStrokes (run [BeginStrokeAt 0 0 (- 1), BeginStrokeAt 5 5 (- 1), EraseStroke 0]
        (new_directive 0 0)) = 2
   \<and> eraseStroke 2 (run [BeginStrokeAt 0 0 (- 1), BeginStrokeAt 5 5 (- 1)] (new_directive 0 0))
       = Inr (False, (run [BeginStrokeAt 0 0 (- 1), BeginStrokeAt 5 5 (- 1)] (new_directive 0 0)))"
proof -
  let ?s = "run [BeginStrokeAt 0 0 (- 1), BeginStrokeAt 5 5 (- 1)] (new_directive 0 0)"
  have n: "numStrokes ?s = 2"
    by (simp add: numStrokes_def two_strokes)
  have r: "run [BeginStrokeAt 0 0 (- 1), BeginStrokeAt 5 5 (- 1), EraseStroke 0]
             (new_directive 0 0) = erased (eraseStroke 0 ?s)"
    by (simp add: run_def)
  have "eraseStroke 0 ?s = Inl (TypeError, ?s)" "eraseStroke 1 ?s = Inl (TypeError, ?s)"
    by (simp_all add: eraseStroke_guarded n)
  moreover have "eraseStroke 2 ?s = Inr (False, ?s)"
    by (simp add: eraseStroke_out_of_range n)
  ultimately show ?thesis
    by (simp add: r n)
qed

lemma splice_last: "xs \<noteq> [] \<Longrightarrow> splice (- 1) 1 xs = butlast xs"
proof -
  assume ne: "xs \<noteq> []"
  then have len: "0 < length xs" by simp
  then have a: "nat (int (length xs) - 1) = length xs - 1" by simp
  have b: "max (int (length xs) + (- 1)) 0 = int (length xs) - 1" using len by simp
  show ?thesis
    unfolding splice_def Let_def using len
    by (simp add: b a butlast_conv_take)
qed

text \<open>
  C10. The claim: on a drawing with at least one stroke, \<^verbatim>\<open>eraseStroke(-1)\<close> returns
  true and removes the last stroke, since the guard only compares with the length and
  \<^verbatim>\<open>splice\<close> counts a negative index from the end (\<open>splice_last\<close>). The index \<open>-1\<close>
  does pass the guard, but the method then throws a \<^verbatim>\<open>TypeError\<close> at the call of
  \<^verbatim>\<open>contains\<close> and never reaches \<^verbatim>\<open>splice\<close>: with two strokes, nothing is returned
  and both strokes are still there.
\<close>

theorem eraseStroke_minus_one_throws:
  "strokes (run [BeginStrokeAt 0 0 (- 1), BeginStrokeAt 5 5 (- 1)] (new_directive 0 0)) = [4, 7]
   \<and> eraseStroke (- 1) (run [BeginStrokeAt 0 0 (- 1), BeginStrokeAt 5 5 (- 1)] (new_directive 0 0))
       = Inl (TypeError, (run [BeginStrokeAt 0 0 (- 1), BeginStrokeAt 5 5 (- 1)] (new_directive 0 0)))
   \<and> strokes (run [BeginStrokeAt 0 0 (- 1), BeginStrokeAt 5 5 (- 1), EraseStroke (- 1)]
        (new_directive 0 0)) = [4, 7]"
proof -
  let ?s = "run [BeginStrokeAt 0 0 (- 1), BeginStrokeAt 5 5 (- 1)] (new_directive 0 0)"
  have r: "run [BeginStrokeAt 0 0 (- 1), BeginStrokeAt 5 5 (- 1), EraseStroke (- 1)]
             (new_directive 0 0) = erased (eraseStroke (- 1) ?s)"
    by (simp add: run_def)
  have "eraseStroke (- 1) ?s = Inl (TypeError, ?s)"
    by (simp add: eraseStroke_guarded numStrokes_def two_strokes)
  then show ?thesis
    by (simp add: r two_strokes)
qed

section \<open>Display objects keep their kind\<close>

lemma is_graphics_set_children: "is_graphics (set_children ks obj) = is_graphics obj"
  by (cases obj) simp_all

lemma is_graphics_addChild: "is_graphics (addChild c k h r) = is_graphics (h r)"
  by (simp add: addChild_def is_graphics_set_children)

lemma is_graphics_removeChild: "is_graphics (removeChild c k h r) = is_graphics (h r)"
  by (cases k) (simp_all add: removeChild_def is_graphics_set_children)

lemma is_graphics_removeChildAt: "is_graphics (removeChildAt c i h r) = is_graphics (h r)"
  by (simp add: removeChildAt_def is_graphics_set_children)

lemma graphics_atE:
  "graphics_at g h \<Longrightarrow> \<exists>r ks old. g = Some r \<and> h r = Graphics ks old"
  by (cases g; simp add: graphics_at_def) (metis is_graphics.elims(2))

section \<open>Strokes in progress\<close>

lemma beginStrokeAt_new:
  "raised (beginStrokeAt x y (- 1) s) = None"
  "strokeInProgress (state_of (beginStrokeAt x y (- 1) s))"
  "lastMouseChangeVectorX (state_of (beginStrokeAt x y (- 1) s)) = 0"
  "lastMouseChangeVectorY (state_of (beginStrokeAt x y (- 1) s)) = 0"
  "lastThickness (state_of (beginStrokeAt x y (- 1) s)) = 0"
  by (simp_all add: beginStrokeAt_def new_object_def andThen_Inr Let_def strokeInProgress_def
        graphics_at_def is_graphics_addChild cong: andThen_weak_cong let_weak_cong)

lemma drawTip_final:
  "stroke s = Some g \<Longrightarrow> heap s g = Graphics ks old \<Longrightarrow>
   drawTip True x y s =
     Inr (s\<lparr>taperThickness := tipTaperFactor s * lineThickness s,
             taper := tipTaperFactor s,
             heap := (heap s)(g := Graphics ks (old @
               [BeginFill (fillColor s) 1,
                DrawCircle x y (tipTaperFactor s * lineThickness s),
                EndFill,
                BeginFill (fillColor s) 1,
                MoveTo (smoothedMouseX s + L1Cos1 s) (smoothedMouseY s + L1Sin1 s),
                LineTo (x + tipTaperFactor s * L1Cos1 s) (y + tipTaperFactor s * L1Sin1 s),
                LineTo (x - tipTaperFactor s * L1Cos1 s) (y - tipTaperFactor s * L1Sin1 s),
                LineTo (smoothedMouseX s - L1Cos1 s) (smoothedMouseY s - L1Sin1 s),
                LineTo (smoothedMouseX s + L1Cos1 s) (smoothedMouseY s + L1Sin1 s),
                EndFill]))\<rparr>)"
  by (simp add: drawTip_def Let_def prims cong: andThen_weak_cong let_weak_cong)

lemma extendStroke_in_progress:
  assumes "strokeInProgress s"
  shows "\<exists>s'. extendStroke x y s = Inr s'
     \<and> strokeInProgress s'
     \<and> lineThickness s' = lastThickness s + thicknessSmoothingFactor s *
          (minThickness s + thicknessFactor s * smoothedDist x y s - lastThickness s)
     \<and> lastThickness s' = lineThickness s'
     \<and> thicknessSmoothingFactor s' = thicknessSmoothingFactor s
     \<and> minThickness s' = minThickness s
     \<and> thicknessFactor s' = thicknessFactor s"
proof -
  from assms obtain g ks old where g: "stroke s = Some g" "heap s g = Graphics ks old"
    using graphics_atE unfolding strokeInProgress_def by blast
  from assms obtain t kt oldt where t: "tip s = Some t" "heap s t = Graphics kt oldt"
    using graphics_atE unfolding strokeInProgress_def by blast
  from assms have p: "mousePressed s" "curStrokeContainer s \<noteq> None"
    by (simp_all add: strokeInProgress_def)
  show ?thesis
  proof (cases "t = g")
    case True
    with g t p show ?thesis
      by (simp add: extendStroke_def Let_def prims drawTip_def strokeInProgress_def
            graphics_at_def smoothedDist_def cong: andThen_weak_cong let_weak_cong)
  next
    case False
    with g t p show ?thesis
      by (simp add: extendStroke_def Let_def prims drawTip_def strokeInProgress_def
            graphics_at_def smoothedDist_def cong: andThen_weak_cong let_weak_cong)
  qed
qed

lemma updateStroke_pressed:
  "mousePressed s \<Longrightarrow>
   updateStroke x y s = andThen (beforeSmoothing x y s) (extendStroke x y)"
  by (simp add: updateStroke_def beforeSmoothing_def Let_def)

lemma recordSample_in_progress:
  "strokeInProgress s \<Longrightarrow> strokeInProgress (recordSample x y s)"
  by (simp add: recordSample_def Let_def strokeInProgress_def)

lemma cuspBranch_in_progress:
  assumes "strokeInProgress s"
  shows "\<exists>s'. cuspBranch s = Inr s' \<and> strokeInProgress s'
     \<and> thicknessSmoothingFactor s' = thicknessSmoothingFactor s
     \<and> minThickness s' = minThickness s
     \<and> thicknessFactor s' = thicknessFactor s"
proof -
  from assms obtain g ks old where g: "stroke s = Some g" "heap s g = Graphics ks old"
    using graphics_atE unfolding strokeInProgress_def by blast
  from assms have "mousePressed s" "graphics_at (tip s) (heap s)" "curStrokeContainer s \<noteq> None"
    by (simp_all add: strokeInProgress_def)
  with g show ?thesis
    by (simp add: cuspBranch_def drawTip_final andThen_Inr strokeInProgress_def graphics_at_def
          split: option.splits)
qed

lemma beforeSmoothing_in_progress:
  assumes "strokeInProgress s"
  shows "\<exists>s'. beforeSmoothing x y s = Inr s' \<and> strokeInProgress s'
     \<and> thicknessSmoothingFactor s' = thicknessSmoothingFactor s
     \<and> minThickness s' = minThickness s
     \<and> thicknessFactor s' = thicknessFactor s
     \<and> (\<not> cuspDetected (recordSample x y s) \<longrightarrow> s' = recordSample x y s)"
proof (cases "cuspDetected (recordSample x y s)")
  case True
  from cuspBranch_in_progress [OF recordSample_in_progress [OF assms, of x y]]
  obtain s' where "cuspBranch (recordSample x y s) = Inr s'" "strokeInProgress s'"
     "thicknessSmoothingFactor s' = thicknessSmoothingFactor (recordSample x y s)"
     "minThickness s' = minThickness (recordSample x y s)"
     "thicknessFactor s' = thicknessFactor (recordSample x y s)"
    by blast
  with True show ?thesis
    by (simp add: beforeSmoothing_def Let_def) (simp add: recordSample_def Let_def)
next
  case False
  with recordSample_in_progress [OF assms, of x y] show ?thesis
    by (simp add: beforeSmoothing_def Let_def) (simp add: recordSample_def Let_def)
qed

lemma updateStroke_in_progress:
  assumes "strokeInProgress s"
  shows "\<exists>s'. updateStroke x y s = Inr s' \<and> strokeInProgress s'
     \<and> lastThickness s' = lineThickness s'
     \<and> thicknessSmoothingFactor s' = thicknessSmoothingFactor s
     \<and> minThickness s' = minThickness s
     \<and> thicknessFactor s' = thicknessFactor s
     \<and> (\<not> cuspDetected (recordSample x y s) \<longrightarrow>
          lineThickness s' = lastThickness s + thicknessSmoothingFactor s *
            (minThickness s + thicknessFactor s * smoothedDist x y s - lastThickness s))"
proof -
  from assms have p: "mousePressed s" by (simp add: strokeInProgress_def)
  from beforeSmoothing_in_progress [OF assms, of x y]
  obtain s1 where s1: "beforeSmoothing x y s = Inr s1" "strokeInProgress s1"
     "thicknessSmoothingFactor s1 = thicknessSmoothingFactor s"
     "minThickness s1 = minThickness s"
     "thicknessFactor s1 = thicknessFactor s"
     "\<not> cuspDetected (recordSample x y s) \<longrightarrow> s1 = recordSample x y s"
    by blast
  from extendStroke_in_progress [OF s1(2), of x y]
  obtain s' where s': "extendStroke x y s1 = Inr s'" "strokeInProgress s'"
     "lineThickness s' = lastThickness s1 + thicknessSmoothingFactor s1 *
          (minThickness s1 + thicknessFactor s1 * smoothedDist x y s1 - lastThickness s1)"
     "lastThickness s' = lineThickness s'"
     "thicknessSmoothingFactor s' = thicknessSmoothingFactor s1"
     "minThickness s' = minThickness s1"
     "thicknessFactor s' = thicknessFactor s1"
    by blast
  have same: "\<not> cuspDetected (recordSample x y s) \<Longrightarrow>
      lastThickness s1 = lastThickness s \<and> smoothedDist x y s1 = smoothedDist x y s"
    using s1(6) by (simp add: recordSample_def Let_def smoothedDist_def)
  have "updateStroke x y s = Inr s'"
    using p s1(1) s'(1) by (simp add: updateStroke_pressed andThen_Inr)
  with s1 s' same show ?thesis by simp
qed

lemma endStrokeAt_in_progress:
  assumes "strokeInProgress s"
  shows "raised (endStrokeAt x y s) = None"
proof -
  from assms obtain g ks old where g: "stroke s = Some g" "heap s g = Graphics ks old"
    using graphics_atE unfolding strokeInProgress_def by blast
  from assms obtain t kt oldt where t: "tip s = Some t" "heap s t = Graphics kt oldt"
    using graphics_atE unfolding strokeInProgress_def by blast
  from assms obtain c where c: "curStrokeContainer s = Some c"
    by (auto simp: strokeInProgress_def)
  from g t c show ?thesis
    by (simp add: endStrokeAt_def Let_def drawTip_final clearGraphics_def andThen_Inr
        cong: andThen_weak_cong let_weak_cong)
qed

section \<open>Fields that a call does not touch\<close>

lemma andThen_keeps:
  assumes "V (state_of m) = a" and "\<And>s1. V (state_of (f s1)) = V s1"
  shows "V (state_of (andThen m f)) = a"
proof (cases m)
  case (Inl p)
  with assms(1) show ?thesis by (cases p) (simp add: andThen_def)
next
  case (Inr s1)
  with assms show ?thesis by (simp add: andThen_def)
qed

lemma draw_keeps:
  assumes "\<And>s r new. is_graphics (heap s r) \<Longrightarrow>
            V (s\<lparr>heap := (heap s)(r := Graphics (children (heap s r)) new)\<rparr>) = V s"
  shows "V (state_of (draw g cmds s)) = V s"
proof (cases g)
  case None
  then show ?thesis by (simp add: draw_def)
next
  case (Some r)
  show ?thesis
  proof (cases "heap s r")
    case (Container ks)
    with Some show ?thesis by (simp add: draw_def)
  next
    case (Graphics ks old)
    with Some assms [of s r "old @ cmds"] show ?thesis by (simp add: draw_def)
  qed
qed

lemma clearGraphics_keeps:
  assumes "\<And>s r new. is_graphics (heap s r) \<Longrightarrow>
            V (s\<lparr>heap := (heap s)(r := Graphics (children (heap s r)) new)\<rparr>) = V s"
  shows "V (state_of (clearGraphics g s)) = V s"
proof (cases g)
  case None
  then show ?thesis by (simp add: clearGraphics_def)
next
  case (Some r)
  show ?thesis
  proof (cases "heap s r")
    case (Container ks)
    with Some show ?thesis by (simp add: clearGraphics_def)
  next
    case (Graphics ks old)
    with Some assms [of s r "[]"] show ?thesis by (simp add: clearGraphics_def)
  qed
qed

lemma drawTip_keeps:
  assumes h: "\<And>s r new. is_graphics (heap s r) \<Longrightarrow>
            V (s\<lparr>heap := (heap s)(r := Graphics (children (heap s r)) new)\<rparr>) = V s"
    and t: "\<And>s v. V (s\<lparr>taperThickness := v\<rparr>) = V s"
    and p: "\<And>s v. V (s\<lparr>taper := v\<rparr>) = V s"
  shows "V (state_of (drawTip isFinal x y s)) = V s"
  unfolding drawTip_def Let_def
  apply (rule andThen_keeps)
   apply (simp add: clearGraphics_keeps [of V, OF h] t)
  apply (rule andThen_keeps)
   apply (simp add: draw_keeps [of V, OF h])
  apply (simp add: draw_keeps [of V, OF h] p)
  done

lemma cuspBranch_keeps:
  assumes h: "\<And>s r new. is_graphics (heap s r) \<Longrightarrow>
            V (s\<lparr>heap := (heap s)(r := Graphics (children (heap s r)) new)\<rparr>) = V s"
    and t: "\<And>s v. V (s\<lparr>taperThickness := v\<rparr>) = V s"
    and p: "\<And>s v. V (s\<lparr>taper := v\<rparr>) = V s"
    and c: "\<And>s v. V (s\<lparr>lastSmoothedMouseX := v\<rparr>) = V s"
           "\<And>s v. V (s\<lparr>smoothedMouseX := v\<rparr>) = V s"
           "\<And>s v. V (s\<lparr>lastSmoothedMouseY := v\<rparr>) = V s"
           "\<And>s v. V (s\<lparr>smoothedMouseY := v\<rparr>) = V s"
           "\<And>s v. V (s\<lparr>lastRotation := v\<rparr>) = V s"
           "\<And>s v. V (s\<lparr>lastThickness := v\<rparr>) = V s"
  shows "V (state_of (cuspBranch s)) = V s"
  unfolding cuspBranch_def
  apply (rule andThen_keeps)
   apply (rule drawTip_keeps [of V], erule h, rule t, rule p)
  apply (simp add: c)
  done

lemma extendStroke_keeps:
  assumes h: "\<And>s r new. is_graphics (heap s r) \<Longrightarrow>
            V (s\<lparr>heap := (heap s)(r := Graphics (children (heap s r)) new)\<rparr>) = V s"
    and t: "\<And>s v. V (s\<lparr>taperThickness := v\<rparr>) = V s"
    and p: "\<And>s v. V (s\<lparr>taper := v\<rparr>) = V s"
    and a: "\<And>s v. V (s\<lparr>smoothedMouseX := v\<rparr>) = V s"
           "\<And>s v. V (s\<lparr>smoothedMouseY := v\<rparr>) = V s"
           "\<And>s v. V (s\<lparr>lineRotation := v\<rparr>) = V s"
           "\<And>s v. V (s\<lparr>lineThickness := v\<rparr>) = V s"
           "\<And>s v. V (s\<lparr>L1Sin1 := v\<rparr>) = V s"
           "\<And>s v. V (s\<lparr>L1Cos1 := v\<rparr>) = V s"
           "\<And>s v. V (s\<lparr>controlX1 := v\<rparr>) = V s"
           "\<And>s v. V (s\<lparr>controlY1 := v\<rparr>) = V s"
           "\<And>s v. V (s\<lparr>controlX2 := v\<rparr>) = V s"
           "\<And>s v. V (s\<lparr>controlY2 := v\<rparr>) = V s"
    and c: "\<And>s v. V (s\<lparr>lastSmoothedMouseX := v\<rparr>) = V s"
           "\<And>s v. V (s\<lparr>lastSmoothedMouseY := v\<rparr>) = V s"
           "\<And>s v. V (s\<lparr>lastRotation := v\<rparr>) = V s"
           "\<And>s v. V (s\<lparr>lastThickness := v\<rparr>) = V s"
           "\<And>s v. V (s\<lparr>lastMouseChangeVectorX := v\<rparr>) = V s"
           "\<And>s v. V (s\<lparr>lastMouseChangeVectorY := v\<rparr>) = V s"
           "\<And>s v. V (s\<lparr>lastMouseX := v\<rparr>) = V s"
           "\<And>s v. V (s\<lparr>lastMouseY := v\<rparr>) = V s"
  shows "V (state_of (extendStroke x y s)) = V s"
  apply (simp add: extendStroke_def Let_def split del: if_split cong: let_weak_cong andThen_weak_cong)
  apply (rule andThen_keeps)
   apply (simp add: draw_keeps [of V, OF h] a split del: if_split)
  apply (rule andThen_keeps)
   apply (rule drawTip_keeps [of V], erule h, rule t, rule p)
  apply (simp add: c)
  done

lemma updateStroke_keeps:
  assumes h: "\<And>s r new. is_graphics (heap s r) \<Longrightarrow>
            V (s\<lparr>heap := (heap s)(r := Graphics (children (heap s r)) new)\<rparr>) = V s"
    and t: "\<And>s v. V (s\<lparr>taperThickness := v\<rparr>) = V s"
    and p: "\<And>s v. V (s\<lparr>taper := v\<rparr>) = V s"
    and a: "\<And>s v. V (s\<lparr>smoothedMouseX := v\<rparr>) = V s"
           "\<And>s v. V (s\<lparr>smoothedMouseY := v\<rparr>) = V s"
           "\<And>s v. V (s\<lparr>lineRotation := v\<rparr>) = V s"
           "\<And>s v. V (s\<lparr>lineThickness := v\<rparr>) = V s"
           "\<And>s v. V (s\<lparr>L1Sin1 := v\<rparr>) = V s"
           "\<And>s v. V (s\<lparr>L1Cos1 := v\<rparr>) = V s"
           "\<And>s v. V (s\<lparr>controlX1 := v\<rparr>) = V s"
           "\<And>s v. V (s\<lparr>controlY1 := v\<rparr>) = V s"
           "\<And>s v. V (s\<lparr>controlX2 := v\<rparr>) = V s"
           "\<And>s v. V (s\<lparr>controlY2 := v\<rparr>) = V s"
    and c: "\<And>s v. V (s\<lparr>lastSmoothedMouseX := v\<rparr>) = V s"
           "\<And>s v. V (s\<lparr>lastSmoothedMouseY := v\<rparr>) = V s"
           "\<And>s v. V (s\<lparr>lastRotation := v\<rparr>) = V s"
           "\<And>s v. V (s\<lparr>lastThickness := v\<rparr>) = V s"
           "\<And>s v. V (s\<lparr>lastMouseChangeVectorX := v\<rparr>) = V s"
           "\<And>s v. V (s\<lparr>lastMouseChangeVectorY := v\<rparr>) = V s"
           "\<And>s v. V (s\<lparr>lastMouseX := v\<rparr>) = V s"
           "\<And>s v. V (s\<lparr>lastMouseY := v\<rparr>) = V s"
  shows "V (state_of (updateStroke x y s)) = (if mousePressed s then V (recordSample x y s) else V s)"
proof (cases "mousePressed s")
  case False
  then show ?thesis by (simp add: updateStroke_def)
next
  case True
  have "V (state_of (andThen (if cuspDetected (recordSample x y s)
                               then cuspBranch (recordSample x y s)
                               else Inr (recordSample x y s)) (extendStroke x y)))
        = V (recordSample x y s)"
    apply (rule andThen_keeps)
     apply (simp add: cuspBranch_keeps [of V, OF h t p c(1) a(1) c(2) a(2) c(3) c(4)])
    apply (rule extendStroke_keeps [of V]; (erule h | rule t p a c))
    done
  with True show ?thesis by (simp add: updateStroke_def Let_def)
qed

lemma updateStroke_log:
  "xCoords (state_of (updateStroke x y s))
     = (if mousePressed s \<and> cache s then xCoords s @ [x] else xCoords s)"
  "yCoords (state_of (updateStroke x y s))
     = (if mousePressed s \<and> cache s then yCoords s @ [y] else yCoords s)"
  "cache (state_of (updateStroke x y s)) = cache s"
  "mousePressed (state_of (updateStroke x y s)) = mousePressed s"
  by (simp_all add: updateStroke_keeps recordSample_def Let_def)

lemma endStrokeAt_keeps:
  assumes h: "\<And>s h. V (s\<lparr>heap := h\<rparr>) = V s"
    and t: "\<And>s v. V (s\<lparr>taperThickness := v\<rparr>) = V s"
    and p: "\<And>s v. V (s\<lparr>taper := v\<rparr>) = V s"
    and e: "\<And>s v. V (s\<lparr>tip := v\<rparr>) = V s"
           "\<And>s v. V (s\<lparr>mousePressed := v\<rparr>) = V s"
           "\<And>s v. V (s\<lparr>emitted := v\<rparr>) = V s"
  shows "V (state_of (endStrokeAt x y s))
     = V (if cache s then s\<lparr>xCoords := xCoords s @ [x], yCoords := yCoords s @ [y]\<rparr> else s)"
  unfolding endStrokeAt_def Let_def
  apply (rule andThen_keeps)
   apply (rule drawTip_keeps [of V, OF _ t p], simp add: h)
  apply (rule andThen_keeps)
   apply (rule clearGraphics_keeps [of V], simp add: h)
  apply (simp add: h e split: option.splits)
  done

lemma endStrokeAt_log:
  "xCoords (state_of (endStrokeAt x y s)) = (if cache s then xCoords s @ [x] else xCoords s)"
  "yCoords (state_of (endStrokeAt x y s)) = (if cache s then yCoords s @ [y] else yCoords s)"
  "cache (state_of (endStrokeAt x y s)) = cache s"
  by (simp_all add: endStrokeAt_keeps)

lemma beginStrokeAt_log:
  "xCoords (state_of (beginStrokeAt x y i s)) = (if cache s then [x] else [])"
  "yCoords (state_of (beginStrokeAt x y i s)) = (if cache s then [y] else [])"
  "cache (state_of (beginStrokeAt x y i s)) = cache s"
  by (simp_all add: beginStrokeAt_def new_object_def andThen_Inr andThen_Inl Let_def
        split: option.splits cong: andThen_weak_cong let_weak_cong)

lemma beginStrokeAt_pressed:
  "mousePressed (state_of (beginStrokeAt x y (- 1) s))"
  by (simp add: beginStrokeAt_def new_object_def andThen_Inr Let_def
        cong: andThen_weak_cong let_weak_cong)

lemma clearChildren_keeps:
  assumes h: "\<And>s h. V (s\<lparr>heap := h\<rparr>) = V s"
  shows "V (state_of (clearChildren c s)) = V s"
proof (induction c s rule: clearChildren.induct)
  case (1 c s)
  show ?case
  proof (cases "children (heap s c)")
    case Nil
    then show ?thesis by (simp add: clearChildren.simps [of c s])
  next
    case (Cons k ks)
    have keep: "V (state_of (clearGraphics (Some k) s)) = V s"
      by (rule clearGraphics_keeps [of V]) (simp add: h)
    show ?thesis
    proof (cases "clearGraphics (Some k) s")
      case (Inl p)
      with Cons keep show ?thesis
        by (cases p) (simp add: clearChildren.simps [of c s])
    next
      case (Inr s')
      from "1.IH" [OF Cons Inr]
      have "V (state_of (clearChildren c (s'\<lparr>heap := removeChildAt c 0 (heap s')\<rparr>))) = V s'"
        by (simp add: h)
      with Cons Inr keep show ?thesis
        by (simp add: clearChildren.simps [of c s])
    qed
  qed
qed

lemma clearStrokes_keeps:
  assumes h: "\<And>s h. V (s\<lparr>heap := h\<rparr>) = V s"
  shows "V (state_of (clearStrokes cs s)) = V s"
proof (induction cs arbitrary: s)
  case Nil
  show ?case by simp
next
  case (Cons c cs)
  show ?case
    apply (simp only: clearStrokes.simps)
    apply (rule andThen_keeps)
     apply (rule clearChildren_keeps [of V, OF h])
    apply (rule Cons.IH)
    done
qed

lemma clear_log:
  "xCoords (state_of (clear s)) = xCoords s"
  "yCoords (state_of (clear s)) = yCoords s"
  "cache (state_of (clear s)) = cache s"
  unfolding clear_def Let_def
    apply (rule andThen_keeps, simp add: clearStrokes_keeps, simp)
   apply (rule andThen_keeps, simp add: clearStrokes_keeps, simp)
  apply (rule andThen_keeps, simp add: clearStrokes_keeps, simp)
  done

lemma eraseStroke_log:
  "xCoords (erased (eraseStroke i s)) = xCoords s"
  "yCoords (erased (eraseStroke i s)) = yCoords s"
  "cache (erased (eraseStroke i s)) = cache s"
  by (simp_all add: eraseStroke_def contains_def Let_def)

lemma perform_balanced:
  "length (xCoords s) = length (yCoords s) \<Longrightarrow>
   length (xCoords (perform c s)) = length (yCoords (perform c s))"
  by (cases c)
     (simp_all add: clear_log beginStrokeAt_log endStrokeAt_log eraseStroke_log updateStroke_log)

lemma run_balanced:
  "length (xCoords s) = length (yCoords s) \<Longrightarrow>
   length (xCoords (run calls s)) = length (yCoords (run calls s))"
  unfolding run_def
  by (induction calls arbitrary: s) (simp_all add: perform_balanced)

lemma new_directive_log:
  "xCoords (new_directive a b) = []" "yCoords (new_directive a b) = []"
  "cache (new_directive a b)" "\<not> mousePressed (new_directive a b)"
  by (simp_all add: new_directive_def clear_def Let_def andThen_Inr
        cong: andThen_weak_cong let_weak_cong)

text \<open>
  C9. After any sequence of calls of the public methods on a new directive, whether
  they return or throw, the log of x-coordinates and the log of y-coordinates have the
  same length: every method that writes one of them writes the other in the same way.
\<close>

theorem log_lengths_agree:
  "length (get_x (run calls (new_directive a b))) = length (get_y (run calls (new_directive a b)))"
  by (simp add: get_x_def get_y_def run_balanced new_directive_log)

lemma updateStroke_returns:
  "strokeInProgress s \<Longrightarrow> raised (updateStroke x y s) = None"
  "strokeInProgress s \<Longrightarrow> strokeInProgress (state_of (updateStroke x y s))"
  using updateStroke_in_progress [of s x y] by auto

text \<open>
  C5. With caching on, the calls \<^verbatim>\<open>beginStrokeAt(10,10)\<close>, \<^verbatim>\<open>updateStroke(12,11)\<close>,
  \<^verbatim>\<open>updateStroke(15,9)\<close>, \<^verbatim>\<open>endStrokeAt(20,10)\<close> all return, and afterwards
  \<^verbatim>\<open>x\<close> is \<open>[10, 12, 15, 20]\<close> and \<^verbatim>\<open>y\<close> is \<open>[10, 11, 9, 10]\<close>, whatever the
  directive held before.
\<close>

theorem cached_points:
  "cache s \<Longrightarrow>
     allReturn [BeginStrokeAt 10 10 (- 1), UpdateStroke 12 11, UpdateStroke 15 9,
                EndStrokeAt 20 10] s
     \<and> get_x (run [BeginStrokeAt 10 10 (- 1), UpdateStroke 12 11, UpdateStroke 15 9,
                    EndStrokeAt 20 10] s) = [10, 12, 15, 20]
     \<and> get_y (run [BeginStrokeAt 10 10 (- 1), UpdateStroke 12 11, UpdateStroke 15 9,
                    EndStrokeAt 20 10] s) = [10, 11, 9, 10]"
  by (simp add: run_def get_x_def get_y_def beginStrokeAt_new beginStrokeAt_log
        beginStrokeAt_pressed updateStroke_log updateStroke_returns endStrokeAt_log
        endStrokeAt_in_progress)

theorem cached_points_witness:
  "cache (new_directive 0 0)
   \<and> get_x (run [BeginStrokeAt 10 10 (- 1), UpdateStroke 12 11, UpdateStroke 15 9,
                  EndStrokeAt 20 10] (new_directive 0 0)) = [10, 12, 15, 20]
   \<and> get_y (run [BeginStrokeAt 10 10 (- 1), UpdateStroke 12 11, UpdateStroke 15 9,
                  EndStrokeAt 20 10] (new_directive 0 0)) = [10, 11, 9, 10]"
  using cached_points [of "new_directive 0 0"] by (simp add: new_directive_log)

text \<open>
  C4. \<^verbatim>\<open>beginStrokeAt(x0, y0)\<close> returns, and in the first \<^verbatim>\<open>updateStroke(x1, y1)\<close>
  after it the dot product of the mouse delta with the stored movement vector, which is
  \<open>(0, 0)\<close>, is exactly \<open>0\<close>: the cusp test fails, and the update returns without an
  error.
\<close>

theorem first_update_no_cusp:
  "raised (beginStrokeAt x0 y0 (- 1) s) = None
   \<and> (let s1 = recordSample x1 y1 (state_of (beginStrokeAt x0 y0 (- 1) s))
      in mouseDeltaX s1 * lastMouseChangeVectorX s1
           + mouseDeltaY s1 * lastMouseChangeVectorY s1 = 0
         \<and> \<not> cuspDetected s1)
   \<and> raised (updateStroke x1 y1 (state_of (beginStrokeAt x0 y0 (- 1) s))) = None"
  by (simp add: beginStrokeAt_new updateStroke_returns cuspDetected_def recordSample_def Let_def)

text \<open>
  C3. In \<^verbatim>\<open>updateStroke(x, y)\<close> with a stroke in progress, the smoothing runs on the
  directive that \<open>beforeSmoothing\<close> returns. When the dot product of the new mouse
  delta with the stored movement vector is negative, that directive is the one with the
  point logged and the delta recorded, changed in this way: a final tip is drawn into
  the stroke at the last mouse position, both smoothed positions are the last mouse
  position, the last rotation is increased by \<open>pi\<close>, and the last thickness is
  multiplied by the taper factor. When the dot product is not negative, none of this
  happens.
\<close>

theorem cusp_handling:
  assumes "mousePressed s" and "stroke s = Some g" and "is_graphics (heap s g)"
  shows "updateStroke x y s = andThen (beforeSmoothing x y s) (extendStroke x y)
    \<and> ((x - lastMouseX s) * lastMouseChangeVectorX s
          + (y - lastMouseY s) * lastMouseChangeVectorY s < 0 \<longrightarrow>
        beforeSmoothing x y s =
          Inr ((recordSample x y s)
            \<lparr>taperThickness := tipTaperFactor s * lineThickness s,
             taper := tipTaperFactor s,
             heap := (heap s)(g := Graphics (children (heap s g)) (geometry (heap s g) @
               [BeginFill (fillColor s) 1,
                DrawCircle (lastMouseX s) (lastMouseY s) (tipTaperFactor s * lineThickness s),
                EndFill,
                BeginFill (fillColor s) 1,
                MoveTo (smoothedMouseX s + L1Cos1 s) (smoothedMouseY s + L1Sin1 s),
                LineTo (lastMouseX s + tipTaperFactor s * L1Cos1 s)
                       (lastMouseY s + tipTaperFactor s * L1Sin1 s),
                LineTo (lastMouseX s - tipTaperFactor s * L1Cos1 s)
                       (lastMouseY s - tipTaperFactor s * L1Sin1 s),
                LineTo (smoothedMouseX s - L1Cos1 s) (smoothedMouseY s - L1Sin1 s),
                LineTo (smoothedMouseX s + L1Cos1 s) (smoothedMouseY s + L1Sin1 s),
                EndFill])),
             lastSmoothedMouseX := lastMouseX s, smoothedMouseX := lastMouseX s,
             lastSmoothedMouseY := lastMouseY s, smoothedMouseY := lastMouseY s,
             lastRotation := lastRotation s + pi,
             lastThickness := tipTaperFactor s * lastThickness s\<rparr>))
    \<and> (0 \<le> (x - lastMouseX s) * lastMouseChangeVectorX s
              + (y - lastMouseY s) * lastMouseChangeVectorY s \<longrightarrow>
        beforeSmoothing x y s = Inr (recordSample x y s))"
proof -
  from assms(3) obtain ks old where g: "heap s g = Graphics ks old"
    by (cases "heap s g") simp_all
  have rs: "stroke (recordSample x y s) = Some g" "heap (recordSample x y s) g = Graphics ks old"
    using assms(2) g by (simp_all add: recordSample_def Let_def)
  have dot: "cuspDetected (recordSample x y s)
      = ((x - lastMouseX s) * lastMouseChangeVectorX s
          + (y - lastMouseY s) * lastMouseChangeVectorY s < 0)"
    by (simp add: cuspDetected_def recordSample_def Let_def)
  show ?thesis
    using assms(1) g
    by (simp add: updateStroke_pressed beforeSmoothing_def Let_def dot cuspBranch_def
          drawTip_final [OF rs] andThen_Inr)
       (simp add: recordSample_def Let_def)
qed

lemma moved_stroke:
  "mousePressed (run [BeginStrokeAt 0 0 (- 1), UpdateStroke 100 0] (new_directive 0 0))"
  "stroke (run [BeginStrokeAt 0 0 (- 1), UpdateStroke 100 0] (new_directive 0 0)) = Some 2"
  "is_graphics (heap (run [BeginStrokeAt 0 0 (- 1), UpdateStroke 100 0] (new_directive 0 0)) 2)"
  "lastMouseX (run [BeginStrokeAt 0 0 (- 1), UpdateStroke 100 0] (new_directive 0 0)) = 100"
  "lastMouseY (run [BeginStrokeAt 0 0 (- 1), UpdateStroke 100 0] (new_directive 0 0)) = 0"
  "lastMouseChangeVectorX (run [BeginStrokeAt 0 0 (- 1), UpdateStroke 100 0] (new_directive 0 0)) = 100"
  "lastMouseChangeVectorY (run [BeginStrokeAt 0 0 (- 1), UpdateStroke 100 0] (new_directive 0 0)) = 0"
  "tipTaperFactor (run [BeginStrokeAt 0 0 (- 1), UpdateStroke 100 0] (new_directive 0 0)) = 4 / 5"
  by (simp_all add: ops prims cong: andThen_weak_cong let_weak_cong)

theorem cusp_handling_witness:
  "mousePressed (run [BeginStrokeAt 0 0 (- 1), UpdateStroke 100 0] (new_directive 0 0))
   \<and> stroke (run [BeginStrokeAt 0 0 (- 1), UpdateStroke 100 0] (new_directive 0 0)) = Some 2
   \<and> is_graphics (heap (run [BeginStrokeAt 0 0 (- 1), UpdateStroke 100 0] (new_directive 0 0)) 2)
   \<and> lastThickness (state_of (beforeSmoothing 50 0
         (run [BeginStrokeAt 0 0 (- 1), UpdateStroke 100 0] (new_directive 0 0))))
       = 4 / 5 * lastThickness (run [BeginStrokeAt 0 0 (- 1), UpdateStroke 100 0] (new_directive 0 0))
   \<and> lastRotation (state_of (beforeSmoothing 50 0
         (run [BeginStrokeAt 0 0 (- 1), UpdateStroke 100 0] (new_directive 0 0))))
       = lastRotation (run [BeginStrokeAt 0 0 (- 1), UpdateStroke 100 0] (new_directive 0 0)) + pi
   \<and> smoothedMouseX (state_of (beforeSmoothing 50 0
         (run [BeginStrokeAt 0 0 (- 1), UpdateStroke 100 0] (new_directive 0 0)))) = 100
   \<and> beforeSmoothing 150 0 (run [BeginStrokeAt 0 0 (- 1), UpdateStroke 100 0] (new_directive 0 0))
       = Inr (recordSample 150 0
           (run [BeginStrokeAt 0 0 (- 1), UpdateStroke 100 0] (new_directive 0 0)))"
  using cusp_handling
          [of "run [BeginStrokeAt 0 0 (- 1), UpdateStroke 100 0] (new_directive 0 0)" 2 50 0]
        cusp_handling
          [of "run [BeginStrokeAt 0 0 (- 1), UpdateStroke 100 0] (new_directive 0 0)" 2 150 0]
  by (simp add: moved_stroke)

section \<open>Thickness along a stroke\<close>

lemma thickness_runs:
  "sampleDists [(100, 0), (201, 0), (99, 0)]
     (run [BeginStrokeAt 0 0 (- 1)] (new_directive 0 0)) = [100, 101, 102]"
  "thicknesses [(100, 0), (201, 0), (99, 0)]
     (run [BeginStrokeAt 0 0 (- 1)] (new_directive 0 0)) = [3, 7017 / 1000, 698352 / 100000]"
  "sampleDists [(1001, 0), (1003, 0), (1006, 0)]
     (run [BeginStrokeAt 0 0 (- 1), UpdateStroke 1000 0] (new_directive 0 0)) = [1, 2, 3]"
  "cusps [(1001, 0), (1003, 0), (1006, 0)]
     (run [BeginStrokeAt 0 0 (- 1), UpdateStroke 1000 0] (new_directive 0 0)) = [False, False, False]"
  "thicknesses [(1001, 0), (1003, 0), (1006, 0)]
     (run [BeginStrokeAt 0 0 (- 1), UpdateStroke 1000 0] (new_directive 0 0)) = [38337 / 1000, 404388 / 10000, 3800019 / 100000]"
  by (simp_all add: ops prims real_sqrt_divide cong: andThen_weak_cong let_weak_cong)

lemma strokes_in_progress:
  "strokeInProgress (run [BeginStrokeAt 0 0 (- 1)] (new_directive 0 0))"
  "strokeInProgress (run [BeginStrokeAt 0 0 (- 1), UpdateStroke 1000 0] (new_directive 0 0))"
  by (simp_all add: ops prims strokeInProgress_def graphics_at_def
        cong: andThen_weak_cong let_weak_cong)

text \<open>
  C8. The claim: with the factors fixed, on every stroke in progress, updates whose
  distances from sample to sample increase strictly give line thicknesses that never
  decrease. It fails in two ways. On a new stroke begun at \<open>(0, 0)\<close>, the samples
  \<open>(100, 0)\<close>, \<open>(201, 0)\<close>, \<open>(99, 0)\<close> are \<open>100\<close>, \<open>101\<close> and \<open>102\<close> apart; the third
  reverses the direction, the cusp branch shrinks the last thickness and restarts the
  smoothing, and the thicknesses are \<open>3\<close>, \<open>7.017\<close>, \<open>6.98352\<close>. On a stroke begun at
  \<open>(0, 0)\<close> and updated once at \<open>(1000, 0)\<close>, the samples \<open>(1001, 0)\<close>, \<open>(1003, 0)\<close>,
  \<open>(1006, 0)\<close> are \<open>1\<close>, \<open>2\<close> and \<open>3\<close> apart and none is a cusp, but the smoothed position
  is still catching up with ever shorter steps, and the thicknesses are \<open>38.337\<close>,
  \<open>40.4388\<close>, \<open>38.00019\<close>.
\<close>

theorem thickness_not_monotone:
  "strokeInProgress (run [BeginStrokeAt 0 0 (- 1)] (new_directive 0 0))
   \<and> sorted_wrt (<) (sampleDists [(100, 0), (201, 0), (99, 0)]
         (run [BeginStrokeAt 0 0 (- 1)] (new_directive 0 0)))
   \<and> \<not> sorted (thicknesses [(100, 0), (201, 0), (99, 0)]
         (run [BeginStrokeAt 0 0 (- 1)] (new_directive 0 0)))
   \<and> strokeInProgress (run [BeginStrokeAt 0 0 (- 1), UpdateStroke 1000 0] (new_directive 0 0))
   \<and> sorted_wrt (<) (sampleDists [(1001, 0), (1003, 0), (1006, 0)]
         (run [BeginStrokeAt 0 0 (- 1), UpdateStroke 1000 0] (new_directive 0 0)))
   \<and> True \<notin> set (cusps [(1001, 0), (1003, 0), (1006, 0)]
         (run [BeginStrokeAt 0 0 (- 1), UpdateStroke 1000 0] (new_directive 0 0)))
   \<and> \<not> sorted (thicknesses [(1001, 0), (1003, 0), (1006, 0)]
         (run [BeginStrokeAt 0 0 (- 1), UpdateStroke 1000 0] (new_directive 0 0)))"
  unfolding thickness_runs
  by (simp del: sorted_wrt.simps add: sorted_wrt2_simps strokes_in_progress)

lemma thickness_step:
  fixes L k T :: real
  assumes "0 \<le> k" "k \<le> 1" "L \<le> T"
  shows "L \<le> L + k * (T - L)" and "L + k * (T - L) \<le> T"
proof -
  from assms have "0 \<le> k * (T - L)" by simp
  then show "L \<le> L + k * (T - L)" by simp
  from assms have "k * (T - L) \<le> 1 * (T - L)"
    by (intro mult_right_mono) simp_all
  then show "L + k * (T - L) \<le> T" by simp
qed

lemma smoothedDist_recordSample:
  "smoothedDist x y (recordSample x y s) = smoothedDist x y s"
  by (simp add: smoothedDist_def recordSample_def Let_def)

lemma thicknesses_sorted_from:
  assumes "strokeInProgress s"
    and "0 \<le> thicknessSmoothingFactor s" and "thicknessSmoothingFactor s \<le> 1"
    and "0 \<le> thicknessFactor s"
    and "True \<notin> set (cusps ps s)"
    and "sorted (smoothedDists ps s)"
    and "\<forall>d\<in>set (smoothedDists ps s). lastThickness s \<le> minThickness s + thicknessFactor s * d"
  shows "sorted (thicknesses ps s) \<and> (\<forall>t\<in>set (thicknesses ps s). lastThickness s \<le> t)"
  using assms
proof (induction ps arbitrary: s)
  case Nil
  show ?case by simp
next
  case (Cons p ps)
  obtain x y where p: "p = (x, y)" by (cases p)
  from Cons.prems(5) have nocusp: "\<not> cuspDetected (recordSample x y s)"
    and rest_cusps: "True \<notin> set (cusps ps (state_of (updateStroke x y s)))"
    by (auto simp: p)
  from updateStroke_in_progress [OF Cons.prems(1), of x y] nocusp
  obtain s' where s': "updateStroke x y s = Inr s'" "strokeInProgress s'"
     "lastThickness s' = lineThickness s'"
     "thicknessSmoothingFactor s' = thicknessSmoothingFactor s"
     "minThickness s' = minThickness s"
     "thicknessFactor s' = thicknessFactor s"
     "lineThickness s' = lastThickness s + thicknessSmoothingFactor s *
            (minThickness s + thicknessFactor s * smoothedDist x y s - lastThickness s)"
    by blast
  from beforeSmoothing_in_progress [OF Cons.prems(1), of x y] nocusp
  have bs: "state_of (beforeSmoothing x y s) = recordSample x y s" by auto
  have dists: "smoothedDists (p # ps) s = smoothedDist x y s # smoothedDists ps s'"
    by (simp add: p bs s'(1) smoothedDist_recordSample)
  have thick: "thicknesses (p # ps) s = lineThickness s' # thicknesses ps s'"
    by (simp add: p s'(1) Let_def)
  let ?T = "minThickness s + thicknessFactor s * smoothedDist x y s"
  from Cons.prems(7) dists have LT: "lastThickness s \<le> ?T" by simp
  from thickness_step [OF Cons.prems(2,3) LT] s'(7)
  have up: "lastThickness s \<le> lineThickness s'" and below: "lineThickness s' \<le> ?T"
    by simp_all
  from Cons.prems(6) dists have sorted_rest: "sorted (smoothedDists ps s')"
    and first: "\<forall>d\<in>set (smoothedDists ps s'). smoothedDist x y s \<le> d"
    by simp_all
  have bound: "\<forall>d\<in>set (smoothedDists ps s').
      lastThickness s' \<le> minThickness s' + thicknessFactor s' * d"
  proof
    fix d assume "d \<in> set (smoothedDists ps s')"
    with first have "smoothedDist x y s \<le> d" by simp
    with Cons.prems(4) have "thicknessFactor s * smoothedDist x y s \<le> thicknessFactor s * d"
      by (simp add: mult_left_mono)
    with below show "lastThickness s' \<le> minThickness s' + thicknessFactor s' * d"
      by (simp add: s')
  qed
  from rest_cusps s'(1) have rc: "True \<notin> set (cusps ps s')" by simp
  from Cons.prems(2,3,4) s'
  have f: "0 \<le> thicknessSmoothingFactor s'" "thicknessSmoothingFactor s' \<le> 1"
    "0 \<le> thicknessFactor s'"
    by simp_all
  from Cons.IH [OF s'(2) f rc sorted_rest bound] s'(3)
  have IH: "sorted (thicknesses ps s')" "\<forall>t\<in>set (thicknesses ps s'). lineThickness s' \<le> t"
    by simp_all
  from IH up show ?case
    unfolding thick by auto
qed

text \<open>
  C8, as the code has it. Take a stroke in progress, a thickness-smoothing factor between
  \<open>0\<close> and \<open>1\<close> and a thickness factor that is not negative. If no update of a
  sequence finds a cusp, the lengths \<^verbatim>\<open>dist\<close> between successive smoothed positions
  never decrease, and the last thickness at the start is at most the target thickness
  \<open>minThickness + thicknessFactor * dist\<close> of each update (as it is right after
  \<^verbatim>\<open>beginStrokeAt\<close>, where it is \<open>0\<close>), then the line thicknesses never decrease.
\<close>

theorem thickness_monotone:
  assumes "strokeInProgress s"
    and "0 \<le> thicknessSmoothingFactor s" and "thicknessSmoothingFactor s \<le> 1"
    and "0 \<le> thicknessFactor s"
    and "True \<notin> set (cusps ps s)"
    and "sorted (smoothedDists ps s)"
    and "\<forall>d\<in>set (smoothedDists ps s). lastThickness s \<le> minThickness s + thicknessFactor s * d"
  shows "sorted (thicknesses ps s)"
  using thicknesses_sorted_from [OF assms] by simp

lemma begun_stroke:
  "strokeInProgress (run [BeginStrokeAt 0 0 (- 1)] (new_directive 0 0))"
  "thicknessSmoothingFactor (run [BeginStrokeAt 0 0 (- 1)] (new_directive 0 0)) = 3 / 10"
  "thicknessFactor (run [BeginStrokeAt 0 0 (- 1)] (new_directive 0 0)) = 3 / 10"
  "minThickness (run [BeginStrokeAt 0 0 (- 1)] (new_directive 0 0)) = 1"
  "lastThickness (run [BeginStrokeAt 0 0 (- 1)] (new_directive 0 0)) = 0"
  "cusps [(100, 0), (201, 0)] (run [BeginStrokeAt 0 0 (- 1)] (new_directive 0 0))
     = [False, False]"
  "smoothedDists [(100, 0), (201, 0)] (run [BeginStrokeAt 0 0 (- 1)] (new_directive 0 0))
     = [30, 513 / 10]"
  "thicknesses [(100, 0), (201, 0)] (run [BeginStrokeAt 0 0 (- 1)] (new_directive 0 0))
     = [3, 7017 / 1000]"
  by (simp_all add: ops prims strokeInProgress_def graphics_at_def real_sqrt_divide
        beforeSmoothing_def smoothedDist_def cong: andThen_weak_cong let_weak_cong)

theorem thickness_monotone_witness:
  "strokeInProgress (run [BeginStrokeAt 0 0 (- 1)] (new_directive 0 0))
   \<and> True \<notin> set (cusps [(100, 0), (201, 0)] (run [BeginStrokeAt 0 0 (- 1)] (new_directive 0 0)))
   \<and> sorted (smoothedDists [(100, 0), (201, 0)]
        (run [BeginStrokeAt 0 0 (- 1)] (new_directive 0 0)))
   \<and> sorted (thicknesses [(100, 0), (201, 0)]
        (run [BeginStrokeAt 0 0 (- 1)] (new_directive 0 0)))"
proof -
  let ?s = "run [BeginStrokeAt 0 0 (- 1)] (new_directive 0 0)"
  let ?ps = "[(100, 0), (201, 0)] :: (real \<times> real) list"
  have f: "0 \<le> thicknessSmoothingFactor ?s" "thicknessSmoothingFactor ?s \<le> 1"
    "0 \<le> thicknessFactor ?s"
    by (simp_all add: begun_stroke)
  have c: "True \<notin> set (cusps ?ps ?s)"
    unfolding begun_stroke by simp
  have d: "sorted (smoothedDists ?ps ?s)"
    unfolding begun_stroke by simp
  have b: "\<forall>d\<in>set (smoothedDists ?ps ?s).
      lastThickness ?s \<le> minThickness ?s + thicknessFactor ?s * d"
    unfolding begun_stroke by simp
  from thickness_monotone [OF begun_stroke(1) f c d b] begun_stroke(1) c d
  show ?thesis by simp
qed

section \<open>Well-formed directives\<close>

text \<open>
  Every public method keeps a directive well-formed, whether it returns or throws, and
  on a well-formed directive \<^verbatim>\<open>clear()\<close> returns: the children it clears are graphics
  objects.
\<close>

lemma wellFormed_shape: "shape s' = shape s \<Longrightarrow> wellFormed s' = wellFormed s"
  by (auto simp: shape_def wellFormed_def fun_eq_iff)

lemma children_set_children: "children (set_children ks obj) = ks"
  by (cases obj) simp_all

lemma shape_updateStroke: "shape (state_of (updateStroke x y s)) = shape s"
proof -
  have "shape (state_of (updateStroke x y s))
      = (if mousePressed s then shape (recordSample x y s) else shape s)"
    by (rule updateStroke_keeps) (auto simp: shape_def fun_eq_iff)
  then show ?thesis
    by (simp add: shape_def recordSample_def Let_def)
qed

lemma andThen_inv:
  assumes "P (state_of m)" and "\<And>s1. P s1 \<Longrightarrow> P (state_of (f s1))"
  shows "P (state_of (andThen m f))"
proof (cases m)
  case (Inl p)
  with assms(1) show ?thesis by (cases p) (simp add: andThen_def)
next
  case (Inr s1)
  with assms show ?thesis by (simp add: andThen_def)
qed

lemma wellFormed_removeChild:
  "wellFormed s \<Longrightarrow> wellFormed (s\<lparr>heap := removeChild c k (heap s)\<rparr>)"
  by (cases k)
     (auto simp: wellFormed_def removeChild_def list_all_iff is_graphics_set_children
        children_set_children dest: notin_set_remove1)

lemma shape_drawTip: "shape (state_of (drawTip isFinal x y s)) = shape s"
  by (rule drawTip_keeps) (auto simp: shape_def fun_eq_iff)

lemma shape_clearGraphics: "shape (state_of (clearGraphics g s)) = shape s"
  by (rule clearGraphics_keeps) (auto simp: shape_def fun_eq_iff)

lemma wellFormed_updateStroke:
  "wellFormed s \<Longrightarrow> wellFormed (state_of (updateStroke x y s))"
  by (simp add: wellFormed_shape [OF shape_updateStroke])

lemma wellFormed_ended:
  assumes "wellFormed s"
  shows "wellFormed (s\<lparr>heap := removeChild c k (heap s), tip := t, mousePressed := m,
                       emitted := e\<rparr>)"
proof -
  have "shape (s\<lparr>heap := removeChild c k (heap s), tip := t, mousePressed := m, emitted := e\<rparr>)
      = shape (s\<lparr>heap := removeChild c k (heap s)\<rparr>)"
    by (simp add: shape_def)
  from wellFormed_shape [OF this] wellFormed_removeChild [OF assms, of c k] show ?thesis
    by simp
qed

lemma wellFormed_logged:
  "wellFormed (if cache s then s\<lparr>xCoords := xs, yCoords := ys\<rparr> else s) = wellFormed s"
  by (simp add: wellFormed_def)

lemma wellFormed_endStrokeAt:
  assumes "wellFormed s"
  shows "wellFormed (state_of (endStrokeAt x y s))"
  using assms unfolding endStrokeAt_def Let_def
  apply -
  apply (rule andThen_inv [where P = wellFormed])
   apply (simp add: wellFormed_shape [OF shape_drawTip] wellFormed_logged)
  apply (rule andThen_inv [where P = wellFormed])
   apply (simp add: wellFormed_shape [OF shape_clearGraphics])
  apply (simp add: wellFormed_ended split: option.splits)
  done

lemma wellFormed_eraseStroke:
  "wellFormed s \<Longrightarrow> wellFormed (erased (eraseStroke i s))"
  by (simp add: eraseStroke_def contains_def Let_def)

lemma children_addChild:
  "children (addChild c k h r) = (if r = c then children (h c) @ [k] else children (h r))"
  by (simp add: addChild_def children_set_children)

lemma children_removeChildAt:
  "children (removeChildAt c i h r)
     = (if r = c then take i (children (h c)) @ drop (Suc i) (children (h c))
        else children (h r))"
  by (simp add: removeChildAt_def children_set_children)

lemma wellFormedD:
  assumes "wellFormed s" and "c \<in> set (strokes s)"
  shows "c < next_ref s" and "c \<noteq> strokeContainer s"
    and "k \<in> set (children (heap s c)) \<Longrightarrow> k < next_ref s"
    and "k \<in> set (children (heap s c)) \<Longrightarrow> is_graphics (heap s k)"
  using assms by (auto simp: wellFormed_def list_all_iff)

lemma wellFormedI:
  assumes "strokeContainer s < next_ref s"
    and "\<And>c. c \<in> set (strokes s) \<Longrightarrow> c < next_ref s \<and> c \<noteq> strokeContainer s"
    and "\<And>c k. c \<in> set (strokes s) \<Longrightarrow> k \<in> set (children (heap s c)) \<Longrightarrow>
           k < next_ref s \<and> is_graphics (heap s k)"
  shows "wellFormed s"
  using assms by (auto simp: wellFormed_def list_all_iff)

lemma beginStrokeAt_new_scene:
  "strokes (state_of (beginStrokeAt x y (- 1) s)) = strokes s @ [Suc (Suc (next_ref s))]"
  "strokeContainer (state_of (beginStrokeAt x y (- 1) s)) = strokeContainer s"
  "next_ref (state_of (beginStrokeAt x y (- 1) s)) = Suc (Suc (Suc (next_ref s)))"
  "heap (state_of (beginStrokeAt x y (- 1) s))
     = addChild (strokeContainer s) (Suc (Suc (next_ref s)))
        (addChild (Suc (Suc (next_ref s))) (Suc (next_ref s))
          (addChild (Suc (Suc (next_ref s))) (next_ref s)
            ((heap s)(next_ref s := Graphics [] [], Suc (next_ref s) := Graphics [] [],
                      Suc (Suc (next_ref s)) := Container []))))"
  by (simp_all add: beginStrokeAt_def new_object_def andThen_Inr Let_def
        cong: andThen_weak_cong let_weak_cong)

lemma wellFormed_beginStrokeAt_new:
  assumes wf: "wellFormed s"
  shows "wellFormed (state_of (beginStrokeAt x y (- 1) s))"
proof (rule wellFormedI)
  from wf have sc: "strokeContainer s < next_ref s" by (simp add: wellFormed_def)
  then show "strokeContainer (state_of (beginStrokeAt x y (- 1) s))
      < next_ref (state_of (beginStrokeAt x y (- 1) s))"
    by (simp add: beginStrokeAt_new_scene)
  fix c assume c: "c \<in> set (strokes (state_of (beginStrokeAt x y (- 1) s)))"
  then have cases: "c \<in> set (strokes s) \<or> c = Suc (Suc (next_ref s))"
    by (auto simp: beginStrokeAt_new_scene)
  from cases sc wellFormedD(1,2) [OF wf]
  show "c < next_ref (state_of (beginStrokeAt x y (- 1) s))
      \<and> c \<noteq> strokeContainer (state_of (beginStrokeAt x y (- 1) s))"
    by (auto simp: beginStrokeAt_new_scene less_Suc_eq)
  fix k assume k: "k \<in> set (children (heap (state_of (beginStrokeAt x y (- 1) s)) c))"
  from cases show "k < next_ref (state_of (beginStrokeAt x y (- 1) s))
      \<and> is_graphics (heap (state_of (beginStrokeAt x y (- 1) s)) k)"
  proof
    assume old: "c \<in> set (strokes s)"
    from wellFormedD(1,2) [OF wf old] k
    have "k \<in> set (children (heap s c))"
      by (simp add: beginStrokeAt_new_scene children_addChild)
    from wellFormedD(3,4) [OF wf old this]
    show ?thesis
      by (simp add: beginStrokeAt_new_scene is_graphics_addChild less_Suc_eq)
  next
    assume new: "c = Suc (Suc (next_ref s))"
    with k sc have "k = next_ref s \<or> k = Suc (next_ref s)"
      by (auto simp: beginStrokeAt_new_scene children_addChild)
    then show ?thesis
      by (auto simp: beginStrokeAt_new_scene is_graphics_addChild)
  qed
qed

lemma beginStrokeAt_index_scene:
  assumes "i \<noteq> - 1"
  shows "strokes (state_of (beginStrokeAt x y i s)) = strokes s"
    and "strokeContainer (state_of (beginStrokeAt x y i s)) = strokeContainer s"
    and "next_ref (state_of (beginStrokeAt x y i s)) = Suc (Suc (next_ref s))"
    and "heap (state_of (beginStrokeAt x y i s))
     = (case at_index (strokes s) i of
          None \<Rightarrow> (heap s)(next_ref s := Graphics [] [], Suc (next_ref s) := Graphics [] [])
        | Some c \<Rightarrow>
            addChild c (Suc (next_ref s)) (addChild c (next_ref s)
              ((heap s)(next_ref s := Graphics [] [], Suc (next_ref s) := Graphics [] []))))"
  using assms
  by (simp_all add: beginStrokeAt_def new_object_def andThen_Inr andThen_Inl Let_def
        numChildren_def greaterThanZero_def
        split: option.splits cong: andThen_weak_cong let_weak_cong)

lemma wellFormed_beginStrokeAt_index:
  assumes wf: "wellFormed s" and i: "i \<noteq> - 1"
  shows "wellFormed (state_of (beginStrokeAt x y i s))"
proof (rule wellFormedI)
  note scene = beginStrokeAt_index_scene [OF i]
  from wf have sc: "strokeContainer s < next_ref s" by (simp add: wellFormed_def)
  then show "strokeContainer (state_of (beginStrokeAt x y i s))
      < next_ref (state_of (beginStrokeAt x y i s))"
    by (simp add: scene)
  fix c assume "c \<in> set (strokes (state_of (beginStrokeAt x y i s)))"
  then have c: "c \<in> set (strokes s)" by (simp add: scene)
  from wellFormedD(1,2) [OF wf c]
  show "c < next_ref (state_of (beginStrokeAt x y i s))
      \<and> c \<noteq> strokeContainer (state_of (beginStrokeAt x y i s))"
    by (simp add: scene)
  fix k assume k: "k \<in> set (children (heap (state_of (beginStrokeAt x y i s)) c))"
  have old: "k' \<in> set (children (heap s c)) \<Longrightarrow>
      k' < Suc (Suc (next_ref s)) \<and> is_graphics (heap (state_of (beginStrokeAt x y i s)) k')"
    for k'
    using wellFormedD(3,4) [OF wf c, of k']
    by (auto simp: scene is_graphics_addChild is_graphics_removeChildAt split: option.splits)
  have fresh: "k' = next_ref s \<or> k' = Suc (next_ref s) \<Longrightarrow>
      k' < Suc (Suc (next_ref s)) \<and> is_graphics (heap (state_of (beginStrokeAt x y i s)) k')"
    for k'
    by (auto simp: scene is_graphics_addChild is_graphics_removeChildAt split: option.splits)
  from k wellFormedD(1) [OF wf c]
  have "k \<in> set (children (heap s c)) \<or> k = next_ref s \<or> k = Suc (next_ref s)"
    by (auto simp: scene children_addChild split: option.splits if_splits)
  with old fresh
  show "k < next_ref (state_of (beginStrokeAt x y i s))
      \<and> is_graphics (heap (state_of (beginStrokeAt x y i s)) k)"
    by (auto simp: scene(3))
qed

lemma wellFormed_beginStrokeAt:
  "wellFormed s \<Longrightarrow> wellFormed (state_of (beginStrokeAt x y i s))"
  by (cases "i = - 1")
     (simp_all add: wellFormed_beginStrokeAt_new wellFormed_beginStrokeAt_index)

lemma clearChildren_returns:
  "\<forall>k\<in>set (children (heap s c)). is_graphics (heap s k) \<Longrightarrow>
   \<exists>s'. clearChildren c s = Inr s'
     \<and> (\<forall>r. is_graphics (heap s' r) = is_graphics (heap s r))
     \<and> (\<forall>r. set (children (heap s' r)) \<subseteq> set (children (heap s r)))"
proof (induction c s rule: clearChildren.induct)
  case (1 c s)
  show ?case
  proof (cases "children (heap s c)")
    case Nil
    then show ?thesis by (simp add: clearChildren.simps [of c s])
  next
    case (Cons k ks)
    with "1.prems" have "is_graphics (heap s k)" by simp
    then obtain kk old where k: "heap s k = Graphics kk old"
      by (cases "heap s k") simp_all
    define s1 where "s1 = s\<lparr>heap := (heap s)(k := Graphics kk [])\<rparr>"
    define s2 where "s2 = s1\<lparr>heap := removeChildAt c 0 (heap s1)\<rparr>"
    have cg: "clearGraphics (Some k) s = Inr s1"
      by (simp add: clearGraphics_def k s1_def)
    have kind1: "is_graphics (heap s1 r) = is_graphics (heap s r)" for r
      using k by (simp add: s1_def)
    have kids1: "children (heap s1 r) = children (heap s r)" for r
      using k by (simp add: s1_def)
    have kind2: "is_graphics (heap s2 r) = is_graphics (heap s r)" for r
      by (simp add: s2_def is_graphics_removeChildAt kind1)
    have kids2: "set (children (heap s2 r)) \<subseteq> set (children (heap s r))" for r
      by (auto simp: s2_def children_removeChildAt kids1 dest: in_set_dropD)
    have "\<forall>k'\<in>set (children (heap s2 c)). is_graphics (heap s2 k')"
      using "1.prems" kids2 [of c] by (auto simp: kind2)
    from "1.IH" [OF Cons cg, folded s2_def, OF this]
    obtain s' where s': "clearChildren c s2 = Inr s'"
      "\<forall>r. is_graphics (heap s' r) = is_graphics (heap s2 r)"
      "\<forall>r. set (children (heap s' r)) \<subseteq> set (children (heap s2 r))"
      by blast
    have "clearChildren c s = Inr s'"
      using Cons cg s'(1) by (simp add: clearChildren.simps [of c s] s2_def)
    moreover have "\<forall>r. is_graphics (heap s' r) = is_graphics (heap s r)"
      using s'(2) kind2 by simp
    moreover have "\<forall>r. set (children (heap s' r)) \<subseteq> set (children (heap s r))"
      using s'(3) kids2 by (meson subset_trans)
    ultimately show ?thesis by blast
  qed
qed

lemma clearStrokes_returns:
  "\<forall>c\<in>set cs. \<forall>k\<in>set (children (heap s c)). is_graphics (heap s k) \<Longrightarrow>
   \<exists>s'. clearStrokes cs s = Inr s'"
proof (induction cs arbitrary: s)
  case Nil
  show ?case by simp
next
  case (Cons c cs)
  from Cons.prems have "\<forall>k\<in>set (children (heap s c)). is_graphics (heap s k)" by simp
  from clearChildren_returns [OF this]
  obtain s1 where s1: "clearChildren c s = Inr s1"
    "\<forall>r. is_graphics (heap s1 r) = is_graphics (heap s r)"
    "\<forall>r. set (children (heap s1 r)) \<subseteq> set (children (heap s r))"
    by blast
  have "\<forall>c'\<in>set cs. \<forall>k\<in>set (children (heap s1 c')). is_graphics (heap s1 k)"
    using Cons.prems s1(2,3) by (meson list.set_intros(2) subsetD)
  from Cons.IH [OF this] obtain s' where "clearStrokes cs s1 = Inr s'" by blast
  with s1(1) show ?case by (simp add: andThen_Inr)
qed

lemma clear_scene:
  "strokeContainer (state_of (clear s)) = strokeContainer s"
  "next_ref (state_of (clear s)) = next_ref s"
  unfolding clear_def Let_def
   apply (rule andThen_keeps, simp add: clearStrokes_keeps, simp)
  apply (rule andThen_keeps, simp add: clearStrokes_keeps, simp)
  done

lemma clear_returned: "clear s = Inr s' \<Longrightarrow> strokes s' = []"
  by (auto simp: clear_def Let_def andThen_def split: sum.splits)

lemma raised_andThen:
  assumes "\<exists>s2. m = Inr s2" and "\<And>s2. raised (f s2) = None"
  shows "raised (andThen m f) = None"
  using assms by (auto simp: andThen_def)

lemma clear_returns:
  assumes wf: "wellFormed s"
  shows "raised (clear s) = None"
proof -
  have ex: "\<exists>s2. clearStrokes (strokes t) t = Inr s2"
    if "heap t = heap s" and "strokes t = strokes s" for t
  proof -
    have "\<forall>c\<in>set (strokes t). \<forall>k\<in>set (children (heap t c)). is_graphics (heap t k)"
      using wellFormedD(4) [OF wf] that by simp
    then show ?thesis by (rule clearStrokes_returns)
  qed
  show ?thesis
    unfolding clear_def Let_def
    apply (rule raised_andThen)
     apply (rule ex)
      apply simp
     apply simp
    apply simp
    done
qed

lemma raised_None: "raised m = None \<Longrightarrow> \<exists>s'. m = Inr s'"
  by (cases m) auto

lemma clear_wellFormed:
  assumes wf: "wellFormed s"
  shows "wellFormed (state_of (clear s))"
proof -
  from raised_None [OF clear_returns [OF wf]] obtain s' where s': "clear s = Inr s'" by blast
  from clear_returned [OF s'] have "strokes (state_of (clear s)) = []" by (simp add: s')
  moreover from wf have "strokeContainer s < next_ref s" by (simp add: wellFormed_def)
  ultimately show ?thesis
    by (simp add: wellFormed_def clear_scene)
qed

lemma wellFormed_new_directive: "wellFormed (new_directive a b)"
  by (simp add: new_directive_def clear_def Let_def andThen_Inr wellFormed_def
        cong: andThen_weak_cong let_weak_cong)

lemma wellFormed_perform: "wellFormed s \<Longrightarrow> wellFormed (perform c s)"
  by (cases c)
     (simp_all add: clear_wellFormed wellFormed_beginStrokeAt wellFormed_endStrokeAt
        wellFormed_eraseStroke wellFormed_updateStroke)

lemma wellFormed_run: "wellFormed s \<Longrightarrow> wellFormed (run calls s)"
  unfolding run_def
  by (induction calls arbitrary: s) (simp_all add: wellFormed_perform)

lemma clear_reachable:
  "returns Clear (run calls (new_directive a b))"
  "numStrokes (perform Clear (run calls (new_directive a b))) = 0"
proof -
  have wf: "wellFormed (run calls (new_directive a b))"
    by (rule wellFormed_run [OF wellFormed_new_directive])
  show "returns Clear (run calls (new_directive a b))"
    by (simp add: clear_returns [OF wf])
  from raised_None [OF clear_returns [OF wf]]
  obtain s' where "clear (run calls (new_directive a b)) = Inr s'" by blast
  then show "numStrokes (perform Clear (run calls (new_directive a b))) = 0"
    by (simp add: numStrokes_def clear_returned)
qed

lemma clear_untouched:
  "lastThickness (state_of (clear s)) = lastThickness s"
  "lineThickness (state_of (clear s)) = lineThickness s"
  "emitted (state_of (clear s)) = emitted s"
  unfolding clear_def Let_def
    apply (rule andThen_keeps, simp add: clearStrokes_keeps, simp)
   apply (rule andThen_keeps, simp add: clearStrokes_keeps, simp)
  apply (rule andThen_keeps, simp add: clearStrokes_keeps, simp)
  done

lemma clear_resets:
  "lastRotation (state_of (clear s)) = 0"
  "lastMouseX (state_of (clear s)) = 0"
  "lastMouseY (state_of (clear s)) = 0"
  "smoothedMouseX (state_of (clear s)) = 0"
  "smoothedMouseY (state_of (clear s)) = 0"
  "lastSmoothedMouseX (state_of (clear s)) = 0"
  "lastSmoothedMouseY (state_of (clear s)) = 0"
  "lastMouseChangeVectorX (state_of (clear s)) = 0"
  "lastMouseChangeVectorY (state_of (clear s)) = 0"
  "mousePressed (state_of (clear s)) = False"
  unfolding clear_def Let_def
  by (rule andThen_keeps, simp add: clearStrokes_keeps, simp)+

section \<open>Clearing and restarting\<close>

text \<open>
  C6. The claim: \<^verbatim>\<open>clear()\<close>, also in the middle of a stroke, leaves no strokes, resets
  every field of the building state, the last thickness among them, raises nothing and
  emits no end notification. After \<^verbatim>\<open>beginStrokeAt(0, 0)\<close> and
  \<^verbatim>\<open>updateStroke(100, 0)\<close> on a new directive the last thickness is \<open>3\<close>;
  \<^verbatim>\<open>clear()\<close> then returns, leaves no strokes, resets the positions, the rotation and
  the pressed flag and emits nothing, but the last thickness is still \<open>3\<close>: the method
  never assigns \<^verbatim>\<open>_lastThickness\<close>. The rest of the claim holds after every sequence
  of calls on a new directive: \<^verbatim>\<open>clear()\<close> returns and leaves no strokes
  (\<open>clear_reachable\<close>), it resets the other fields (\<open>clear_resets\<close>), and it leaves
  the thicknesses and the notifications as they were (\<open>clear_untouched\<close>).
\<close>

theorem clear_leaves_last_thickness:
  "strokeInProgress (run [BeginStrokeAt 0 0 (- 1), UpdateStroke 100 0] (new_directive a b))
   \<and> lastThickness (run [BeginStrokeAt 0 0 (- 1), UpdateStroke 100 0] (new_directive a b)) = 3
   \<and> returns Clear (run [BeginStrokeAt 0 0 (- 1), UpdateStroke 100 0] (new_directive a b))
   \<and> numStrokes (run [BeginStrokeAt 0 0 (- 1), UpdateStroke 100 0, Clear] (new_directive a b)) = 0
   \<and> \<not> mousePressed (run [BeginStrokeAt 0 0 (- 1), UpdateStroke 100 0, Clear] (new_directive a b))
   \<and> lastRotation (run [BeginStrokeAt 0 0 (- 1), UpdateStroke 100 0, Clear] (new_directive a b)) = 0
   \<and> lastMouseX (run [BeginStrokeAt 0 0 (- 1), UpdateStroke 100 0, Clear] (new_directive a b)) = 0
   \<and> emitted (run [BeginStrokeAt 0 0 (- 1), UpdateStroke 100 0, Clear] (new_directive a b))
        = [''beginStroke'']
   \<and> lastThickness (run [BeginStrokeAt 0 0 (- 1), UpdateStroke 100 0, Clear] (new_directive a b))
        = 3"
  by (simp add: ops prims strokeInProgress_def graphics_at_def
        cong: andThen_weak_cong let_weak_cong)

lemma beginStrokeAt_index_refs:
  "stroke (state_of (beginStrokeAt x y i s)) = Some (next_ref s)"
  "tip (state_of (beginStrokeAt x y i s)) = Some (Suc (next_ref s))"
  by (simp_all add: beginStrokeAt_def new_object_def andThen_Inr andThen_Inl Let_def
        split: option.splits cong: andThen_weak_cong let_weak_cong)

lemma beginStrokeAt_index_returns:
  "at_index (strokes s) i = Some c \<Longrightarrow>
   raised (beginStrokeAt x y i s) = None
   \<and> curStrokeContainer (state_of (beginStrokeAt x y i s)) = Some c
   \<and> mousePressed (state_of (beginStrokeAt x y i s))"
proof -
  assume c: "at_index (strokes s) i = Some c"
  then have "i \<noteq> - 1"
    by (auto simp: at_index_def split: if_splits)
  with c show ?thesis
    by (simp add: beginStrokeAt_def new_object_def andThen_Inr Let_def
          cong: andThen_weak_cong let_weak_cong)
qed

text \<open>
  C7. The claim: \<^verbatim>\<open>beginStrokeAt(x, y, i)\<close> on an existing stroke leaves the number of
  strokes unchanged, discards all the geometry the stroke had, and does not clear its
  cached points. The method empties the coordinate log before anything else: after a
  stroke from \<open>(10, 10)\<close> to \<open>(20, 10)\<close> the log holds both points, and after
  \<^verbatim>\<open>beginStrokeAt(5, 5, 0)\<close> it holds \<open>(5, 5)\<close> only. The number of strokes is still
  one. The old geometry is not discarded either: the container of stroke 0 held the
  graphics object 2 with the ten commands of the final tip, and after the restart it
  holds \<open>[2, 5, 6]\<close>, object 2 with its ten commands still the first; the guard of the
  removal reads \<^verbatim>\<open>numChildren\<close>, which the container does not have.
\<close>

theorem restart_clears_log:
  "numStrokes (run [BeginStrokeAt 10 10 (- 1), EndStrokeAt 20 10] (new_directive 0 0)) = 1
   \<and> get_x (run [BeginStrokeAt 10 10 (- 1), EndStrokeAt 20 10] (new_directive 0 0)) = [10, 20]
   \<and> get_y (run [BeginStrokeAt 10 10 (- 1), EndStrokeAt 20 10] (new_directive 0 0)) = [10, 10]
   \<and> children (heap (run [BeginStrokeAt 10 10 (- 1), EndStrokeAt 20 10] (new_directive 0 0)) 4) = [2]
   \<and> length (geometry (heap (run [BeginStrokeAt 10 10 (- 1), EndStrokeAt 20 10] (new_directive 0 0)) 2)) = 10
   \<and> numStrokes (run [BeginStrokeAt 10 10 (- 1), EndStrokeAt 20 10, BeginStrokeAt 5 5 0]
        (new_directive 0 0)) = 1
   \<and> get_x (run [BeginStrokeAt 10 10 (- 1), EndStrokeAt 20 10, BeginStrokeAt 5 5 0]
        (new_directive 0 0)) = [5]
   \<and> get_y (run [BeginStrokeAt 10 10 (- 1), EndStrokeAt 20 10, BeginStrokeAt 5 5 0]
        (new_directive 0 0)) = [5]
   \<and> children (heap (run [BeginStrokeAt 10 10 (- 1), EndStrokeAt 20 10, BeginStrokeAt 5 5 0]
        (new_directive 0 0)) 4) = [2, 5, 6]
   \<and> length (geometry (heap (run [BeginStrokeAt 10 10 (- 1), EndStrokeAt 20 10, BeginStrokeAt 5 5 0]
        (new_directive 0 0)) 2)) = 10"
  by (simp add: ops prims cong: andThen_weak_cong let_weak_cong)

text \<open>
  C7, as the code has it by design. For a stroke at index \<open>i\<close> whose container was
  created before the call, \<^verbatim>\<open>beginStrokeAt(x, y, i)\<close> returns and leaves the collection
  of strokes as it is; the stroke's container becomes the current one, a new, empty
  stroke graphics and a new, empty tip are its last two children, and a stroke is in
  progress; the coordinate log is reset to the point \<open>(x, y)\<close> with caching on, and to
  nothing without. What becomes of the earlier children is not stated.
\<close>

theorem restart_stroke:
  assumes "at_index (strokes s) i = Some c" and "c < next_ref s"
  shows "raised (beginStrokeAt x y i s) = None
    \<and> numStrokes (state_of (beginStrokeAt x y i s)) = numStrokes s
    \<and> strokes (state_of (beginStrokeAt x y i s)) = strokes s
    \<and> curStrokeContainer (state_of (beginStrokeAt x y i s)) = Some c
    \<and> (\<exists>ks. children (heap (state_of (beginStrokeAt x y i s)) c)
              = ks @ [next_ref s, Suc (next_ref s)])
    \<and> heap (state_of (beginStrokeAt x y i s)) (next_ref s) = Graphics [] []
    \<and> heap (state_of (beginStrokeAt x y i s)) (Suc (next_ref s)) = Graphics [] []
    \<and> stroke (state_of (beginStrokeAt x y i s)) = Some (next_ref s)
    \<and> tip (state_of (beginStrokeAt x y i s)) = Some (Suc (next_ref s))
    \<and> strokeInProgress (state_of (beginStrokeAt x y i s))
    \<and> get_x (state_of (beginStrokeAt x y i s)) = (if cache s then [x] else [])
    \<and> get_y (state_of (beginStrokeAt x y i s)) = (if cache s then [y] else [])"
proof -
  from assms(1) have i: "i \<noteq> - 1"
    by (auto simp: at_index_def split: if_splits)
  note scene = beginStrokeAt_index_scene [OF i, of x y s]
  note ret = beginStrokeAt_index_returns [OF assms(1), of x y]
  have kids: "children (heap (state_of (beginStrokeAt x y i s)) c)
      = children (heap s c) @ [next_ref s, Suc (next_ref s)]"
    using assms by (simp add: scene(4) children_addChild)
  have fresh: "heap (state_of (beginStrokeAt x y i s)) (next_ref s) = Graphics [] []"
      "heap (state_of (beginStrokeAt x y i s)) (Suc (next_ref s)) = Graphics [] []"
    using assms by (simp_all add: scene(4) addChild_def)
  have prog: "strokeInProgress (state_of (beginStrokeAt x y i s))"
    by (simp add: strokeInProgress_def graphics_at_def beginStrokeAt_index_refs fresh ret)
  show ?thesis
    by (simp add: ret numStrokes_def scene(1) kids fresh prog
          beginStrokeAt_index_refs get_x_def get_y_def beginStrokeAt_log)
qed

lemma ended_stroke:
  "at_index (strokes (run [BeginStrokeAt 10 10 (- 1), EndStrokeAt 20 10] (new_directive 0 0))) 0
     = Some 4"
  "next_ref (run [BeginStrokeAt 10 10 (- 1), EndStrokeAt 20 10] (new_directive 0 0)) = 5"
  "cache (run [BeginStrokeAt 10 10 (- 1), EndStrokeAt 20 10] (new_directive 0 0))"
  by (simp_all add: ops prims cong: andThen_weak_cong let_weak_cong)

theorem restart_stroke_witness:
  "at_index (strokes (run [BeginStrokeAt 10 10 (- 1), EndStrokeAt 20 10] (new_directive 0 0))) 0
     = Some 4
   \<and> 4 < next_ref (run [BeginStrokeAt 10 10 (- 1), EndStrokeAt 20 10] (new_directive 0 0))
   \<and> raised (beginStrokeAt 5 5 0
        (run [BeginStrokeAt 10 10 (- 1), EndStrokeAt 20 10] (new_directive 0 0))) = None
   \<and> numStrokes (state_of (beginStrokeAt 5 5 0
        (run [BeginStrokeAt 10 10 (- 1), EndStrokeAt 20 10] (new_directive 0 0))))
      = numStrokes (run [BeginStrokeAt 10 10 (- 1), EndStrokeAt 20 10] (new_directive 0 0))
   \<and> stroke (state_of (beginStrokeAt 5 5 0
        (run [BeginStrokeAt 10 10 (- 1), EndStrokeAt 20 10] (new_directive 0 0)))) = Some 5
   \<and> get_x (state_of (beginStrokeAt 5 5 0
        (run [BeginStrokeAt 10 10 (- 1), EndStrokeAt 20 10] (new_directive 0 0)))) = [5]"
proof -
  let ?s = "run [BeginStrokeAt 10 10 (- 1), EndStrokeAt 20 10] (new_directive 0 0)"
  have n: "4 < next_ref ?s" by (simp add: ended_stroke)
  from restart_stroke [OF ended_stroke(1) n, of 5 5] ended_stroke n
  show ?thesis by simp
qed

end
